theory Spec2Isabelle
  imports Complex_Main "HOL-Library.Sublist" "HOL-Library.AList"
begin

section \<open>Values, tensors and the collaborators of the training loop\<close>

text \<open>
  The module \<^verbatim>\<open>allrank/training/train_utils.py\<close> drives a learning-to-rank model
  through epochs. The model, the loss, the optimizer, the scheduler, the metrics module,
  the early stopper and the tensorboard writer are objects of other modules; here they are
  parameters (the record \<open>collab\<close>) acting on one abstract state \<open>'x\<close>.

  A tensor element is a float: a finite number, an infinity or NaN. Losses and metric
  values are taken to be finite and arithmetic on them exact (type \<open>real\<close>); a quotient
  or a mean computed by numpy is a float again, since it is NaN on empty input.
\<close>

datatype pyfloat = Fin real | PInf | NInf | NaN

datatype error =
  ValueError | KeyError | IndexError | UnboundLocalError | AttributeError | RuntimeError
  | TypeError

type_synonym tensor2 = "pyfloat list list"
type_synonym tensor3 = "pyfloat list list list"
type_synonym mask = "bool list list"
type_synonym index_tensor = "int list list"
type_synonym batch = "tensor3 \<times> tensor2 \<times> index_tensor"
type_synonym metric_fn = "tensor2 \<Rightarrow> tensor2 \<Rightarrow> int list \<Rightarrow> real list list"
type_synonym metric_dict = "(string \<times> pyfloat) list"

text \<open>Float comparison \<^verbatim>\<open>==\<close>: NaN equals nothing, itself included.\<close>

fun py_eq :: "pyfloat \<Rightarrow> pyfloat \<Rightarrow> bool" where
  "py_eq NaN _ = False"
| "py_eq _ NaN = False"
| "py_eq a b = (a = b)"

text \<open>Division of numpy scalars: a zero divisor gives NaN or an infinity (and a warning).\<close>

definition np_divide :: "real \<Rightarrow> real \<Rightarrow> pyfloat" where
  "np_divide a b =
     (if b = 0 then (if a = 0 then NaN else if 0 < a then PInf else NInf)
      else Fin (a / b))"

text \<open>\<^verbatim>\<open>np.mean\<close> of a flat sequence: NaN when it is empty.\<close>

definition np_mean :: "real list \<Rightarrow> pyfloat" where
  "np_mean xs = (if xs = [] then NaN else Fin (sum_list xs / real (length xs)))"

datatype event =
    Backward
  | ClipGradNorm real
  | OptStep
  | ZeroGrad
  | ModelTrain
  | ModelEval
  | Score tensor3 mask "index_tensor option"
  | LogLearningRate "real option"
  | SaveToTensorboard "((string \<times> string) \<times> pyfloat option) list" nat
  | LogSummary nat pyfloat pyfloat metric_dict metric_dict
  | SchedulerStep "pyfloat option"
  | LogEarlyStop nat
  | TorchSave string
  | CloseAllWriters

datatype scheduler = ReduceLROnPlateau | OtherScheduler

record 'x collab =
  forward :: "'x \<Rightarrow> tensor3 \<Rightarrow> mask \<Rightarrow> index_tensor \<Rightarrow> tensor2"
  score :: "'x \<Rightarrow> tensor3 \<Rightarrow> mask \<Rightarrow> index_tensor option \<Rightarrow> tensor2"
  loss_func :: "tensor2 \<Rightarrow> tensor2 \<Rightarrow> real"
  backward :: "tensor3 \<Rightarrow> tensor2 \<Rightarrow> index_tensor \<Rightarrow> 'x \<Rightarrow> 'x"
  clip_grad_norm :: "real \<Rightarrow> 'x \<Rightarrow> 'x"
  opt_step :: "'x \<Rightarrow> 'x"
  zero_grad :: "'x \<Rightarrow> 'x"
  model_train :: "'x \<Rightarrow> 'x"
  model_eval :: "'x \<Rightarrow> 'x"
  param_groups_lr :: "'x \<Rightarrow> real list"
  scheduler_step :: "pyfloat option \<Rightarrow> 'x \<Rightarrow> 'x"
  metrics_module :: "string \<Rightarrow> metric_fn option"
  PADDED_Y_VALUE :: pyfloat
  get_num_params :: "'x \<Rightarrow> int"
  early_stop_init :: "int option \<Rightarrow> 'x \<Rightarrow> 'x"
  early_stop_step :: "pyfloat option \<Rightarrow> nat \<Rightarrow> 'x \<Rightarrow> error + 'x"
  early_stop_stop_training :: "nat \<Rightarrow> 'x \<Rightarrow> bool"

text \<open>
  The world a call runs in: the state of the collaborators, the calls made on them in
  order, the text files written (a file is its lines, a line the number printed on it) and
  the checkpoints saved by \<^verbatim>\<open>torch.save\<close> (the state whose parameters were saved).
\<close>

record 'x world =
  ext :: 'x
  trace :: "event list"
  files :: "string \<rightharpoonup> pyfloat list"
  checkpoints :: "string \<rightharpoonup> 'x"

definition emit :: "event \<Rightarrow> 'x world \<Rightarrow> 'x world" where
  "emit e w = w\<lparr>trace := trace w @ [e]\<rparr>"

definition on_ext :: "('x \<Rightarrow> 'x) \<Rightarrow> 'x world \<Rightarrow> 'x world" where
  "on_ext f w = w\<lparr>ext := f (ext w)\<rparr>"

section \<open>One batch: \<^verbatim>\<open>loss_batch\<close>\<close>

text \<open>
  \<^verbatim>\<open>if gradient_clipping_norm:\<close> is Python truth of a configured number that may be
  unset: \<^verbatim>\<open>None\<close> and zero are false, every other number is true.
\<close>

fun truthy :: "real option \<Rightarrow> bool" where
  "truthy None = False"
| "truthy (Some r) = (r \<noteq> 0)"

definition padding_mask :: "'x collab \<Rightarrow> tensor2 \<Rightarrow> mask" where
  "padding_mask c yb = map (map (\<lambda>y. py_eq y (PADDED_Y_VALUE c))) yb"

text \<open>
  \<open>opt\<close> says whether an optimizer was passed (\<^verbatim>\<open>opt is not None\<close>). The result is
  \<^verbatim>\<open>(loss.item(), len(xb))\<close>.
\<close>

definition loss_batch ::
  "'x collab \<Rightarrow> tensor3 \<Rightarrow> tensor2 \<Rightarrow> index_tensor \<Rightarrow> real option \<Rightarrow> bool \<Rightarrow> 'x world
     \<Rightarrow> (real \<times> nat) \<times> 'x world" where
  "loss_batch c xb yb indices gradient_clipping_norm opt w =
     (let mask = padding_mask c yb;
          loss = loss_func c (forward c (ext w) xb mask indices) yb;
          w1 = (if opt then
                  (let wb = emit Backward (on_ext (backward c xb yb indices) w);
                       wc = (if truthy gradient_clipping_norm
                             then emit (ClipGradNorm (the gradient_clipping_norm))
                                    (on_ext (clip_grad_norm c (the gradient_clipping_norm)) wb)
                             else wb);
                       ws = emit OptStep (on_ext (opt_step c) wc)
                   in emit ZeroGrad (on_ext (zero_grad c) ws))
                else w)
      in ((loss, length xb), w1))"

text \<open>The list comprehension of \<^verbatim>\<open>fit\<close> that calls \<^verbatim>\<open>loss_batch\<close> on every batch.\<close>

fun loss_batches ::
  "'x collab \<Rightarrow> batch list \<Rightarrow> real option \<Rightarrow> bool \<Rightarrow> 'x world
     \<Rightarrow> (real \<times> nat) list \<times> 'x world" where
  "loss_batches c [] g opt w = ([], w)"
| "loss_batches c ((xb, yb, indices) # dl) g opt w =
     (let (r, w1) = loss_batch c xb yb indices g opt w;
          (rs, w2) = loss_batches c dl g opt w1
      in (r # rs, w2))"

text \<open>
  \<^verbatim>\<open>losses, nums = zip(*results)\<close>: with no batch, \<^verbatim>\<open>zip()\<close> yields nothing and
  the unpacking into two names raises ValueError.
\<close>

definition unzip_results :: "(real \<times> nat) list \<Rightarrow> error + (real list \<times> nat list)" where
  "unzip_results rs = (if rs = [] then Inl ValueError else Inr (map fst rs, map snd rs))"

text \<open>\<^verbatim>\<open>np.sum(np.multiply(losses, nums)) / np.sum(nums)\<close>\<close>

definition np_multiply :: "real list \<Rightarrow> nat list \<Rightarrow> real list" where
  "np_multiply losses nums = map (\<lambda>(l, n). l * real n) (zip losses nums)"

definition size_weighted_loss :: "real list \<Rightarrow> nat list \<Rightarrow> pyfloat" where
  "size_weighted_loss losses nums =
     np_divide (sum_list (np_multiply losses nums)) (real (sum_list nums))"

section \<open>Strings, paths and dictionaries\<close>

text \<open>\<^verbatim>\<open>str\<close> of an integer: decimal digits, a minus sign before a negative number.\<close>

definition digit_char :: "nat \<Rightarrow> char" where
  "digit_char d = ''0123456789'' ! d"

function str_nat :: "nat \<Rightarrow> string" where
  "str_nat n = (if n < 10 then [digit_char n] else str_nat (n div 10) @ [digit_char (n mod 10)])"
  by pat_completeness auto
termination
  by (relation "measure id") auto

definition str_int :: "int \<Rightarrow> string" where
  "str_int i = (if i < 0 then CHR ''-'' # str_nat (nat (- i)) else str_nat (nat i))"

text \<open>\<^verbatim>\<open>os.path.join\<close> of two components (POSIX).\<close>

definition path_join :: "string \<Rightarrow> string \<Rightarrow> string" where
  "path_join a b =
     (if b \<noteq> [] \<and> hd b = CHR ''/'' then b
      else if a = [] \<or> last a = CHR ''/'' then a @ b
      else a @ ''/'' @ b)"

text \<open>
  A Python dict is an association list with distinct keys in insertion order:
  \<open>AList.update\<close> overwrites in place or appends, as an item assignment does.
\<close>

definition py_dict :: "('k \<times> 'v) list \<Rightarrow> ('k \<times> 'v) list" where
  "py_dict kvs = fold (\<lambda>(k, v). AList.update k v) kvs []"

definition dict_update :: "('k \<times> 'v) list \<Rightarrow> ('k \<times> 'v) list \<Rightarrow> ('k \<times> 'v) list" where
  "dict_update d new = fold (\<lambda>(k, v). AList.update k v) new d"

definition setdefault :: "'k \<Rightarrow> 'v \<Rightarrow> ('k \<times> 'v) list \<Rightarrow> ('k \<times> 'v) list" where
  "setdefault k v d = (case map_of d k of None \<Rightarrow> d @ [(k, v)] | Some _ \<Rightarrow> d)"

text \<open>\<^verbatim>\<open>["{metric_name}_{at}".format(...) for at in ats]\<close>\<close>

definition metrics_names :: "string \<Rightarrow> int list \<Rightarrow> string list" where
  "metrics_names metric_name ats = map (\<lambda>cutoff. metric_name @ ''_'' @ str_int cutoff) ats"

text \<open>Sequencing of calls that may raise: the first error ends the computation.\<close>

definition and_then ::
  "(error + 'a) \<times> 's \<Rightarrow> ('a \<Rightarrow> 's \<Rightarrow> (error + 'b) \<times> 's) \<Rightarrow> (error + 'b) \<times> 's" where
  "and_then r f = (case r of (Inl e, s) \<Rightarrow> (Inl e, s) | (Inr a, s) \<Rightarrow> f a s)"

section \<open>Metrics over a split: \<^verbatim>\<open>metric_on_batch\<close>, \<^verbatim>\<open>metric_on_epoch\<close>, \<^verbatim>\<open>compute_metrics\<close>\<close>

text \<open>
  A data loader: the batches it yields when iterated (taken in the same order at every
  iteration) and the per-query arrays of its dataset. The device argument and the
  transfers \<^verbatim>\<open>.to(device=dev)\<close> do not change values and are left out.
\<close>

record dataloader =
  batches :: "batch list"
  X_by_qid :: tensor3
  y_by_qid :: tensor2

definition metric_on_batch ::
  "'x collab \<Rightarrow> metric_fn \<Rightarrow> int list \<Rightarrow> tensor3 \<Rightarrow> tensor2 \<Rightarrow> index_tensor \<Rightarrow> 'x world
     \<Rightarrow> real list list \<times> 'x world" where
  "metric_on_batch c metric ats xb yb indices w =
     (let mask = padding_mask c yb
      in (metric (score c (ext w) xb mask (Some indices)) yb ats,
          emit (Score xb mask (Some indices)) w))"

fun metric_on_batches ::
  "'x collab \<Rightarrow> metric_fn \<Rightarrow> int list \<Rightarrow> batch list \<Rightarrow> 'x world
     \<Rightarrow> real list list list \<times> 'x world" where
  "metric_on_batches c metric ats [] w = ([], w)"
| "metric_on_batches c metric ats ((xb, yb, indices) # dl) w =
     (let (r, w1) = metric_on_batch c metric ats xb yb indices w;
          (rs, w2) = metric_on_batches c metric ats dl w1
      in (r # rs, w2))"

text \<open>
  \<^verbatim>\<open>torch.cat\<close> of a list of per-batch tensors along the example axis: an empty list is
  an error, and so are rows of different widths.
\<close>

definition torch_cat :: "real list list list \<Rightarrow> error + real list list" where
  "torch_cat ts =
     (if ts = [] then Inl RuntimeError
      else if \<exists>r \<in> set (concat ts). length r \<noteq> length (hd (concat ts)) then Inl RuntimeError
      else Inr (concat ts))"

text \<open>
  \<^verbatim>\<open>torch.mean(t, dim=0)\<close>: the mean of every column. A tensor with no row keeps its
  width \<open>k\<close> (the number of cutoffs the metric was evaluated at) and has NaN means.
\<close>

definition torch_mean_dim0 :: "nat \<Rightarrow> real list list \<Rightarrow> pyfloat list" where
  "torch_mean_dim0 k rows =
     (if rows = [] then replicate k NaN else map np_mean (transpose rows))"

definition metric_on_epoch ::
  "'x collab \<Rightarrow> metric_fn \<Rightarrow> int list \<Rightarrow> batch list \<Rightarrow> 'x world
     \<Rightarrow> (error + pyfloat list) \<times> 'x world" where
  "metric_on_epoch c metric ats dl w =
     (let (rs, w1) = metric_on_batches c metric ats dl w
      in (case torch_cat rs of
            Inl e \<Rightarrow> (Inl e, w1)
          | Inr rows \<Rightarrow> (Inr (torch_mean_dim0 (length ats) rows), w1)))"

fun compute_metrics_loop ::
  "'x collab \<Rightarrow> (string \<times> int list) list \<Rightarrow> batch list \<Rightarrow> metric_dict \<Rightarrow> 'x world
     \<Rightarrow> (error + metric_dict) \<times> 'x world" where
  "compute_metrics_loop c [] dl metric_values_dict w = (Inr metric_values_dict, w)"
| "compute_metrics_loop c ((metric_name, ats) # metrics) dl metric_values_dict w =
     (case metrics_module c metric_name of
        None \<Rightarrow> (Inl AttributeError, w)
      | Some metric_func \<Rightarrow>
          and_then (metric_on_epoch c metric_func ats dl w)
            (\<lambda>metrics_values w1.
               compute_metrics_loop c metrics dl
                 (dict_update metric_values_dict
                    (py_dict (zip (metrics_names metric_name ats) metrics_values))) w1))"

definition compute_metrics ::
  "'x collab \<Rightarrow> (string \<times> int list) list \<Rightarrow> batch list \<Rightarrow> 'x world
     \<Rightarrow> (error + metric_dict) \<times> 'x world" where
  "compute_metrics c metrics dl w = compute_metrics_loop c metrics dl [] w"

section \<open>The per-query pass: \<^verbatim>\<open>compute_test\<close>\<close>

type_synonym results_dict = "(string \<times> real list list) list"

definition predictions_file :: "string \<Rightarrow> nat \<Rightarrow> string" where
  "predictions_file output_dir epoch = path_join output_dir (str_nat epoch @ ''.model.predict.txt'')"

definition metric_file :: "string \<Rightarrow> nat \<Rightarrow> string \<Rightarrow> string" where
  "metric_file output_dir epoch m =
     path_join output_dir (str_nat epoch @ ''.model.predict.'' @ m @ ''.txt'')"

text \<open>\<^verbatim>\<open>open(path, 'w')\<close> creates the file or empties it; a write to a file opened with
  \<^verbatim>\<open>'a'\<close> (or still open) adds lines at its end.\<close>

definition open_w :: "string \<Rightarrow> 'x world \<Rightarrow> 'x world" where
  "open_w p w = w\<lparr>files := (files w)(p \<mapsto> [])\<rparr>"

definition append_lines :: "string \<Rightarrow> pyfloat list \<Rightarrow> 'x world \<Rightarrow> 'x world" where
  "append_lines p ls w =
     w\<lparr>files := (files w)(p \<mapsto> (case files w p of None \<Rightarrow> [] | Some old \<Rightarrow> old) @ ls)\<rparr>"

text \<open>\<^verbatim>\<open>temp_querie_x_tensor[torch.isnan(temp_querie_x_tensor)] = 0\<close>\<close>

definition nan_to_zero :: "tensor3 \<Rightarrow> tensor3" where
  "nan_to_zero X = map (map (map (\<lambda>v. if v = NaN then Fin 0 else v))) X"

text \<open>\<^verbatim>\<open>.T\<close> of a two-dimensional array of width \<open>k\<close>: its columns; with no row, \<open>k\<close>
  empty columns.\<close>

definition numpy_T :: "nat \<Rightarrow> real list list \<Rightarrow> real list list" where
  "numpy_T k rows = (if rows = [] then replicate k [] else transpose rows)"

text \<open>\<^verbatim>\<open>np.mean\<close> of a list of one-dimensional arrays: of all their elements when
  they have one length; arrays of different lengths do not form an array.\<close>

definition np_mean_arrays :: "real list list \<Rightarrow> error + pyfloat" where
  "np_mean_arrays arrays =
     (if \<exists>a \<in> set arrays. length a \<noteq> length (hd arrays) then Inl ValueError
      else Inr (np_mean (concat arrays)))"

text \<open>Lines 88 to 94: every configured name gets an empty list and an emptied file.\<close>

fun init_metric_names ::
  "string \<Rightarrow> nat \<Rightarrow> string list \<Rightarrow> results_dict \<Rightarrow> 'x world \<Rightarrow> results_dict \<times> 'x world" where
  "init_metric_names output_dir epoch [] all_results_metric w = (all_results_metric, w)"
| "init_metric_names output_dir epoch (m # ms) all_results_metric w =
     init_metric_names output_dir epoch ms (setdefault m [] all_results_metric)
       (open_w (metric_file output_dir epoch m) w)"

fun init_metric_files ::
  "string \<Rightarrow> nat \<Rightarrow> (string \<times> int list) list \<Rightarrow> results_dict \<Rightarrow> 'x world
     \<Rightarrow> results_dict \<times> 'x world" where
  "init_metric_files output_dir epoch [] all_results_metric w = (all_results_metric, w)"
| "init_metric_files output_dir epoch ((metric_name, ats) # metrics) all_results_metric w =
     (let (a1, w1) = init_metric_names output_dir epoch (metrics_names metric_name ats)
                       all_results_metric w
      in init_metric_files output_dir epoch metrics a1 w1)"

text \<open>Lines 119 to 124: one column of metric values per name, appended to the file of
  the name and to its list.\<close>

fun record_results ::
  "string \<Rightarrow> nat \<Rightarrow> (string \<times> real list) list \<Rightarrow> results_dict \<Rightarrow> 'x world
     \<Rightarrow> (error + results_dict) \<times> 'x world" where
  "record_results output_dir epoch [] all_results_metric w = (Inr all_results_metric, w)"
| "record_results output_dir epoch ((name, result) # rest) all_results_metric w =
     (let w1 = append_lines (metric_file output_dir epoch name) (map Fin result) w
      in (case map_of all_results_metric name of
            None \<Rightarrow> (Inl KeyError, w1)
          | Some rs \<Rightarrow>
              record_results output_dir epoch rest
                (AList.update name (rs @ [result]) all_results_metric) w1))"

text \<open>Lines 110 to 124: the metrics of one query, for the names that contain "ndcg".\<close>

fun query_metrics ::
  "'x collab \<Rightarrow> string \<Rightarrow> nat \<Rightarrow> (string \<times> int list) list \<Rightarrow> tensor2 \<Rightarrow> tensor2
     \<Rightarrow> results_dict \<Rightarrow> 'x world \<Rightarrow> (error + results_dict) \<times> 'x world" where
  "query_metrics c output_dir epoch [] results_predicted y all_results_metric w =
     (Inr all_results_metric, w)"
| "query_metrics c output_dir epoch ((metric_name, ats) # metrics) results_predicted y
       all_results_metric w =
     (if sublist ''ndcg'' metric_name then
        (case metrics_module c metric_name of
           None \<Rightarrow> (Inl AttributeError, w)
         | Some metric_func \<Rightarrow>
             and_then
               (record_results output_dir epoch
                  (zip (metrics_names metric_name ats)
                     (numpy_T (length ats) (metric_func results_predicted y ats)))
                  all_results_metric w)
               (\<lambda>a1 w1. query_metrics c output_dir epoch metrics results_predicted y a1 w1))
      else query_metrics c output_dir epoch metrics results_predicted y all_results_metric w)"

text \<open>Lines 96 to 124: the loop over the queries of the dataset.\<close>

fun test_queries ::
  "'x collab \<Rightarrow> (string \<times> int list) list \<Rightarrow> dataloader \<Rightarrow> string \<Rightarrow> nat \<Rightarrow> nat list
     \<Rightarrow> results_dict \<Rightarrow> 'x world \<Rightarrow> (error + results_dict) \<times> 'x world" where
  "test_queries c metrics dl output_dir epoch [] all_results_metric w =
     (Inr all_results_metric, w)"
| "test_queries c metrics dl output_dir epoch (num_query # qs) all_results_metric w =
     (if length (X_by_qid dl) \<le> num_query \<or> length (y_by_qid dl) \<le> num_query
      then (Inl IndexError, w)
      else
        (let temp_querie_x_tensor = nan_to_zero [X_by_qid dl ! num_query];
             y = [y_by_qid dl ! num_query];
             mask = padding_mask c y;
             results_predicted = score c (ext w) temp_querie_x_tensor mask None;
             w1 = emit (Score temp_querie_x_tensor mask None) w;
             w2 = append_lines (predictions_file output_dir epoch) (concat results_predicted) w1
         in and_then
              (query_metrics c output_dir epoch metrics results_predicted y all_results_metric w2)
              (\<lambda>a1 w3. test_queries c metrics dl output_dir epoch qs a1 w3)))"

text \<open>Lines 126 to 128: the mean of every list whose name contains "ndcg".\<close>

fun collect_means :: "results_dict \<Rightarrow> metric_dict \<Rightarrow> error + metric_dict" where
  "collect_means [] metric_values_dict = Inr metric_values_dict"
| "collect_means ((m, arrays) # rest) metric_values_dict =
     (if sublist ''ndcg'' m then
        (case np_mean_arrays arrays of
           Inl e \<Rightarrow> Inl e
         | Inr v \<Rightarrow> collect_means rest (setdefault m v metric_values_dict))
      else collect_means rest metric_values_dict)"

definition compute_test ::
  "'x collab \<Rightarrow> (string \<times> int list) list \<Rightarrow> dataloader \<Rightarrow> string \<Rightarrow> nat \<Rightarrow> 'x world
     \<Rightarrow> (error + metric_dict) \<times> 'x world" where
  "compute_test c metrics dl output_dir epoch w =
     (let num_queries = length (X_by_qid dl);
          w0 = open_w (predictions_file output_dir epoch) w;
          (a0, w1) = init_metric_files output_dir epoch metrics [] w0
      in and_then (test_queries c metrics dl output_dir epoch [0..<num_queries] a0 w1)
           (\<lambda>a w2. (collect_means a [], w2)))"

section \<open>The epoch loop: \<^verbatim>\<open>fit\<close>\<close>

record config =
  metrics :: "(string \<times> int list) list"
  val_metric :: string

text \<open>The local names of \<^verbatim>\<open>fit\<close> that the loop body binds; unbound before the first
  iteration.\<close>

record fit_locals =
  epoch :: "nat option"
  train_loss :: "pyfloat option"
  val_loss :: "pyfloat option"
  train_metrics :: "metric_dict option"
  val_metrics :: "metric_dict option"

definition unbound :: fit_locals where
  "unbound = \<lparr>epoch = None, train_loss = None, val_loss = None, train_metrics = None,
              val_metrics = None\<rparr>"

datatype pyval = VInt int | VDict metric_dict

definition get_current_lr :: "'x collab \<Rightarrow> 'x \<Rightarrow> real option" where
  "get_current_lr c x = (case param_groups_lr c x of [] \<Rightarrow> None | lr # _ \<Rightarrow> Some lr)"

definition tensorboard_metrics_dict ::
  "pyfloat \<Rightarrow> pyfloat \<Rightarrow> metric_dict \<Rightarrow> metric_dict \<Rightarrow> real option
     \<Rightarrow> ((string \<times> string) \<times> pyfloat option) list" where
  "tensorboard_metrics_dict t_loss v_loss t_metrics v_metrics lr =
     (let d0 = py_dict [((''train'', ''loss''), Some t_loss), ((''val'', ''loss''), Some v_loss)];
          d1 = dict_update d0 (py_dict (map (\<lambda>(name, v). ((''train'', name), Some v)) t_metrics));
          d2 = dict_update d1 (py_dict (map (\<lambda>(name, v). ((''val'', name), Some v)) v_metrics))
      in dict_update d2 (py_dict [((''train'', ''lr''), map_option Fin lr)]))"

text \<open>Lines 182 to 188: the scheduler is stepped when one is given; a plateau scheduler
  is given the value of the configured validation metric, read by subscript.\<close>

definition step_scheduler ::
  "'x collab \<Rightarrow> scheduler option \<Rightarrow> metric_dict \<Rightarrow> string \<Rightarrow> 'x world
     \<Rightarrow> (error + unit) \<times> 'x world" where
  "step_scheduler c sched v_metrics key w =
     (case sched of
        None \<Rightarrow> (Inr (), w)
      | Some ReduceLROnPlateau \<Rightarrow>
          (case map_of v_metrics key of
             None \<Rightarrow> (Inl KeyError, w)
           | Some v \<Rightarrow>
               (Inr (), emit (SchedulerStep (Some v)) (on_ext (scheduler_step c (Some v)) w)))
      | Some OtherScheduler \<Rightarrow>
          (Inr (), emit (SchedulerStep None) (on_ext (scheduler_step c None) w)))"

text \<open>Lines 193 to 199. The result says whether the loop breaks.\<close>

definition step_early_stop ::
  "'x collab \<Rightarrow> pyfloat option \<Rightarrow> nat \<Rightarrow> 'x world \<Rightarrow> (error + bool) \<times> 'x world" where
  "step_early_stop c current_val_metric_value ep w =
     (case early_stop_step c current_val_metric_value ep (ext w) of
        Inl e \<Rightarrow> (Inl e, w)
      | Inr x \<Rightarrow>
          (let w1 = w\<lparr>ext := x\<rparr>
           in if early_stop_stop_training c ep (ext w1)
              then (Inr True, emit (LogEarlyStop ep) w1)
              else (Inr False, w1)))"

text \<open>Lines 147 to 158: the training pass of an epoch, its loss and its metrics.\<close>

definition train_pass ::
  "'x collab \<Rightarrow> dataloader \<Rightarrow> config \<Rightarrow> real option \<Rightarrow> 'x world
     \<Rightarrow> (error + pyfloat \<times> metric_dict) \<times> 'x world" where
  "train_pass c train_dl cfg gradient_clipping_norm w =
     (let w1 = emit (LogLearningRate (get_current_lr c (ext w))) w;
          w2 = emit ModelTrain (on_ext (model_train c) w1);
          (train_results, w3) = loss_batches c (batches train_dl) gradient_clipping_norm True w2
      in case unzip_results train_results of
           Inl e \<Rightarrow> (Inl e, w3)
         | Inr (train_losses, train_nums) \<Rightarrow>
             (let t_loss = size_weighted_loss train_losses train_nums
              in and_then (compute_metrics c (metrics cfg) (batches train_dl) w3)
                   (\<lambda>t_metrics w4. (Inr (t_loss, t_metrics), w4))))"

text \<open>Lines 160 to 168: the validation pass, without an optimizer.\<close>

definition val_pass ::
  "'x collab \<Rightarrow> dataloader \<Rightarrow> config \<Rightarrow> real option \<Rightarrow> 'x world
     \<Rightarrow> (error + pyfloat \<times> metric_dict) \<times> 'x world" where
  "val_pass c valid_dl cfg gradient_clipping_norm w =
     (let w5 = emit ModelEval (on_ext (model_eval c) w);
          (val_results, w6) = loss_batches c (batches valid_dl) gradient_clipping_norm False w5
      in case unzip_results val_results of
           Inl e \<Rightarrow> (Inl e, w6)
         | Inr (val_losses, val_nums) \<Rightarrow>
             and_then (compute_metrics c (metrics cfg) (batches valid_dl) w6)
               (\<lambda>v_metrics w7.
                  (Inr (size_weighted_loss val_losses val_nums, v_metrics), w7)))"

text \<open>Lines 170 to 199: tensorboard and the summary, the scheduler, the per-query pass
  and the early-stop decision. The result says whether the loop breaks.\<close>

definition epoch_end ::
  "'x collab \<Rightarrow> scheduler option \<Rightarrow> dataloader \<Rightarrow> config \<Rightarrow> string \<Rightarrow> nat
     \<Rightarrow> pyfloat \<Rightarrow> metric_dict \<Rightarrow> pyfloat \<Rightarrow> metric_dict \<Rightarrow> 'x world
     \<Rightarrow> (error + bool) \<times> 'x world" where
  "epoch_end c sched valid_dl cfg output_dir ep t_loss t_metrics v_loss v_metrics w =
     (let w8 = emit (SaveToTensorboard
                       (tensorboard_metrics_dict t_loss v_loss t_metrics v_metrics
                          (get_current_lr c (ext w))) ep) w;
          w9 = emit (LogSummary ep t_loss v_loss t_metrics v_metrics) w8;
          current_val_metric_value = map_of v_metrics (val_metric cfg)
      in and_then (step_scheduler c sched v_metrics (val_metric cfg) w9) (\<lambda>_ w10.
         and_then (compute_test c (metrics cfg) valid_dl output_dir ep w10) (\<lambda>_ w11.
         step_early_stop c current_val_metric_value ep w11)))"

text \<open>The body of the loop, lines 147 to 199, with the names it binds.\<close>

definition fit_epoch ::
  "'x collab \<Rightarrow> scheduler option \<Rightarrow> dataloader \<Rightarrow> dataloader \<Rightarrow> config \<Rightarrow> real option
     \<Rightarrow> string \<Rightarrow> nat \<Rightarrow> 'x world \<Rightarrow> (error + fit_locals \<times> bool) \<times> 'x world" where
  "fit_epoch c sched train_dl valid_dl cfg gradient_clipping_norm output_dir ep w =
     and_then (train_pass c train_dl cfg gradient_clipping_norm w) (\<lambda>(t_loss, t_metrics) w4.
     and_then (val_pass c valid_dl cfg gradient_clipping_norm w4) (\<lambda>(v_loss, v_metrics) w7.
     and_then (epoch_end c sched valid_dl cfg output_dir ep t_loss t_metrics v_loss v_metrics w7)
       (\<lambda>stop w12.
          (Inr (\<lparr>epoch = Some ep, train_loss = Some t_loss, val_loss = Some v_loss,
                 train_metrics = Some t_metrics, val_metrics = Some v_metrics\<rparr>, stop), w12))))"

text \<open>\<^verbatim>\<open>for epoch in range(epochs)\<close> with its \<^verbatim>\<open>break\<close>.\<close>

fun fit_loop ::
  "'x collab \<Rightarrow> scheduler option \<Rightarrow> dataloader \<Rightarrow> dataloader \<Rightarrow> config \<Rightarrow> real option
     \<Rightarrow> string \<Rightarrow> nat list \<Rightarrow> fit_locals \<Rightarrow> 'x world \<Rightarrow> (error + fit_locals) \<times> 'x world" where
  "fit_loop c sched train_dl valid_dl cfg g output_dir [] locals w = (Inr locals, w)"
| "fit_loop c sched train_dl valid_dl cfg g output_dir (ep # eps) locals w =
     (case fit_epoch c sched train_dl valid_dl cfg g output_dir ep w of
        (Inl e, w1) \<Rightarrow> (Inl e, w1)
      | (Inr (locals1, stop), w1) \<Rightarrow>
          if stop then (Inr locals1, w1)
          else fit_loop c sched train_dl valid_dl cfg g output_dir eps locals1 w1)"

text \<open>Lines 201 to 209: the checkpoint, the writers, and the returned dict, which reads
  the names \<^verbatim>\<open>epoch\<close>, \<^verbatim>\<open>train_metrics\<close> and \<^verbatim>\<open>val_metrics\<close>.\<close>

definition fit_result :: "fit_locals \<Rightarrow> int \<Rightarrow> error + (string \<times> pyval) list" where
  "fit_result locals num_params =
     (case (epoch locals, train_metrics locals, val_metrics locals) of
        (Some ep, Some tm, Some vm) \<Rightarrow>
          Inr (py_dict [(''epochs'', VInt (int ep)), (''train_metrics'', VDict tm),
                        (''val_metrics'', VDict vm), (''num_params'', VInt num_params)])
      | _ \<Rightarrow> Inl UnboundLocalError)"

definition fit ::
  "int \<Rightarrow> 'x collab \<Rightarrow> scheduler option \<Rightarrow> dataloader \<Rightarrow> dataloader \<Rightarrow> config \<Rightarrow> real option
     \<Rightarrow> int option \<Rightarrow> string \<Rightarrow> 'x world \<Rightarrow> (error + (string \<times> pyval) list) \<times> 'x world" where
  "fit epochs c sched train_dl valid_dl cfg gradient_clipping_norm early_stopping_patience
       output_dir w =
     (let num_params = get_num_params c (ext w);
          w0 = on_ext (early_stop_init c early_stopping_patience) w
      in and_then
           (fit_loop c sched train_dl valid_dl cfg gradient_clipping_norm output_dir
              [0..<nat epochs] unbound w0)
           (\<lambda>locals w1.
              (let p = path_join output_dir ''model.pkl'';
                   w2 = emit (TorchSave p) (w1\<lparr>checkpoints := (checkpoints w1)(p \<mapsto> ext w1)\<rparr>);
                   w3 = emit CloseAllWriters w2
               in (fit_result locals num_params, w3))))"

text \<open>
  The events that mark the course of a run: the start of the training pass of an epoch,
  the summary of an epoch, the early-stop message, the checkpoint and the closing of the
  writers. The calls inside the passes are the other events.
\<close>

fun major :: "event \<Rightarrow> bool" where
  "major ModelTrain = True"
| "major (LogSummary _ _ _ _ _) = True"
| "major (LogEarlyStop _) = True"
| "major (TorchSave _) = True"
| "major CloseAllWriters = True"
| "major _ = False"

text \<open>A stretch of a run without major events that leaves the checkpoints alone.\<close>

definition quiet :: "'x world \<Rightarrow> 'x world \<Rightarrow> bool" where
  "quiet w w' \<longleftrightarrow>
     (\<exists>evs. trace w' = trace w @ evs \<and> filter major evs = []) \<and> checkpoints w' = checkpoints w"

text \<open>
  The new events \<open>evs\<close> of a loop over the epochs \<open>eps\<close> with result \<open>res\<close> show a
  loop that broke at epoch \<open>e\<close>: the epochs up to \<open>e\<close> ran in order, each with its
  training pass and its summary, the early-stop message came last, and the names bound
  by the loop are those of epoch \<open>e\<close>.
\<close>

definition stopped :: "nat list \<Rightarrow> error + fit_locals \<Rightarrow> event list \<Rightarrow> nat \<Rightarrow> bool" where
  "stopped eps res evs e \<longleftrightarrow>
     (\<exists>pre post sms a b tm vm.
        eps = pre @ e # post \<and>
        res = Inr \<lparr>epoch = Some e, train_loss = Some a, val_loss = Some b,
                   train_metrics = Some tm, val_metrics = Some vm\<rparr> \<and>
        filter major evs = concat (map (\<lambda>s. [ModelTrain, s]) sms) @ [LogEarlyStop e] \<and>
        list_all2 (\<lambda>s k. \<exists>a b tm vm. s = LogSummary k a b tm vm) sms (pre @ [e]) \<and>
        last sms = LogSummary e a b tm vm)"

section \<open>An early stopper and a small instance of the collaborators\<close>

text \<open>
  Modelled from the spec: the class \<^verbatim>\<open>EarlyStop\<close> of \<^verbatim>\<open>allrank.training.early_stop\<close>
  is not among the sources. The controller keeps the best value seen and its epoch;
  \<^verbatim>\<open>step\<close> records a value that is strictly better (higher) than the best one, or any
  value while none is recorded, and takes a missing value as no improvement;
  \<^verbatim>\<open>stop_training\<close> holds iff \<open>epoch - best_epoch \<ge> patience\<close>, and never with a
  patience that is unset or zero. While no best epoch is recorded (every value so far
  was missing) the epochs are counted from epoch 0, so that the patience counter
  progresses.
\<close>

record early_stop =
  patience :: "int option"
  best_value :: "pyfloat option"
  best_epoch :: "nat option"

fun better :: "pyfloat \<Rightarrow> pyfloat \<Rightarrow> bool" where
  "better (Fin a) (Fin b) = (b < a)"
| "better PInf (Fin _) = True"
| "better PInf NInf = True"
| "better (Fin _) NInf = True"
| "better _ _ = False"

definition es_step :: "pyfloat option \<Rightarrow> nat \<Rightarrow> early_stop \<Rightarrow> early_stop" where
  "es_step current ep es =
     (case current of
        None \<Rightarrow> es
      | Some v \<Rightarrow>
          (if best_value es = None \<or> better v (the (best_value es))
           then es\<lparr>best_value := Some v, best_epoch := Some ep\<rparr> else es))"

definition es_stop_training :: "nat \<Rightarrow> early_stop \<Rightarrow> bool" where
  "es_stop_training ep es =
     (case patience es of
        None \<Rightarrow> False
      | Some p \<Rightarrow>
          0 < p \<and> p \<le> int ep - int (case best_epoch es of None \<Rightarrow> 0 | Some b \<Rightarrow> b))"

text \<open>
  A ranking metric for the instance: for every example and cutoff \<open>k\<close>, 1 if one of the
  \<open>k\<close> highest scored documents has a positive label, else 0. Documents are ranked by
  descending score, NaN first (as \<^verbatim>\<open>torch.sort\<close> orders it).
\<close>

fun ranks_before :: "pyfloat \<Rightarrow> pyfloat \<Rightarrow> bool" where
  "ranks_before NaN _ = True"
| "ranks_before _ NaN = False"
| "ranks_before PInf _ = True"
| "ranks_before _ PInf = False"
| "ranks_before _ NInf = True"
| "ranks_before NInf _ = False"
| "ranks_before (Fin a) (Fin b) = (b \<le> a)"

fun insert_ranked ::
  "pyfloat \<times> pyfloat \<Rightarrow> (pyfloat \<times> pyfloat) list \<Rightarrow> (pyfloat \<times> pyfloat) list" where
  "insert_ranked d [] = [d]"
| "insert_ranked d (e # es) =
     (if ranks_before (fst e) (fst d) then e # insert_ranked d es else d # e # es)"

definition ranked :: "pyfloat list \<Rightarrow> pyfloat list \<Rightarrow> (pyfloat \<times> pyfloat) list" where
  "ranked scores labels = foldr insert_ranked (zip scores labels) []"

fun relevant :: "pyfloat \<Rightarrow> bool" where
  "relevant (Fin r) = (0 < r)"
| "relevant PInf = True"
| "relevant _ = False"

definition top_hit :: metric_fn where
  "top_hit scores y ats =
     map (\<lambda>(s, l). map (\<lambda>k. if list_ex (\<lambda>d. relevant (snd d)) (take (nat k) (ranked s l))
                              then 1 else 0) ats)
       (zip scores y)"

fun fin_part :: "pyfloat \<Rightarrow> real" where
  "fin_part (Fin r) = r"
| "fin_part _ = 0"

text \<open>The model of the instance scores a document by its first feature; the loss is the
  sum of the finite scores; the state counts optimizer steps and holds the early stopper.\<close>

definition first_feature :: "tensor3 \<Rightarrow> tensor2" where
  "first_feature X = map (map (\<lambda>doc. case doc of [] \<Rightarrow> Fin 0 | v # _ \<Rightarrow> v)) X"

record ex_state =
  opt_steps :: nat
  stopper :: early_stop

definition ex_collab :: "ex_state collab" where
  "ex_collab = \<lparr>
     forward = (\<lambda>x X m i. first_feature X),
     score = (\<lambda>x X m i. first_feature X),
     loss_func = (\<lambda>scores y. sum_list (map fin_part (concat scores))),
     backward = (\<lambda>xb yb i x. x),
     clip_grad_norm = (\<lambda>r x. x),
     opt_step = (\<lambda>x. x\<lparr>opt_steps := Suc (opt_steps x)\<rparr>),
     zero_grad = (\<lambda>x. x),
     model_train = (\<lambda>x. x),
     model_eval = (\<lambda>x. x),
     param_groups_lr = (\<lambda>x. [1]),
     scheduler_step = (\<lambda>v x. x),
     metrics_module = (\<lambda>name. if name = ''ndcg'' \<or> name = ''mrr'' then Some top_hit else None),
     PADDED_Y_VALUE = Fin (- 1),
     get_num_params = (\<lambda>x. 1),
     early_stop_init =
       (\<lambda>p x. x\<lparr>stopper := \<lparr>patience = p, best_value = None, best_epoch = None\<rparr>\<rparr>),
     early_stop_step = (\<lambda>v ep x. Inr (x\<lparr>stopper := es_step v ep (stopper x)\<rparr>)),
     early_stop_stop_training = (\<lambda>ep x. es_stop_training ep (stopper x))\<rparr>"

definition ex_world :: "ex_state world" where
  "ex_world =
     \<lparr>ext = \<lparr>opt_steps = 0,
             stopper = \<lparr>patience = None, best_value = None, best_epoch = None\<rparr>\<rparr>,
      trace = [], files = Map.empty, checkpoints = Map.empty\<rparr>"

text \<open>Two training batches of sizes 3 and 1 with losses 2 and 6; one validation query
  with two documents.\<close>

definition ex_train :: dataloader where
  "ex_train =
     \<lparr>batches =
        [([[[Fin 1]], [[Fin 1]], [[Fin 0]]], [[Fin 1], [Fin 0], [Fin 1]], [[0], [0], [0]]),
         ([[[Fin 6]]], [[Fin 1]], [[0]])],
      X_by_qid = [[[Fin 1]], [[Fin 1]], [[Fin 0]], [[Fin 6]]],
      y_by_qid = [[Fin 1], [Fin 0], [Fin 1], [Fin 1]]\<rparr>"

definition ex_valid :: dataloader where
  "ex_valid =
     \<lparr>batches = [([[[Fin 2], [Fin 1]]], [[Fin 0, Fin 1]], [[0, 1]])],
      X_by_qid = [[[Fin 2], [Fin 1]]],
      y_by_qid = [[Fin 0, Fin 1]]\<rparr>"

definition ex_config :: config where
  "ex_config = \<lparr>metrics = [(''ndcg'', [1, 2]), (''mrr'', [1])], val_metric = ''ndcg_1''\<rparr>"

section \<open>Properties\<close>

subsection \<open>Sequencing and effects\<close>

declare str_nat.simps [simp del]

lemma emit_simps [simp]:
  "trace (emit e w) = trace w @ [e]" "ext (emit e w) = ext w"
  "files (emit e w) = files w" "checkpoints (emit e w) = checkpoints w"
  by (simp_all add: emit_def)

lemma on_ext_simps [simp]:
  "trace (on_ext f w) = trace w" "ext (on_ext f w) = f (ext w)"
  "files (on_ext f w) = files w" "checkpoints (on_ext f w) = checkpoints w"
  by (simp_all add: on_ext_def)

lemma and_then_Inl [simp]: "and_then (Inl e, s) f = (Inl e, s)"
  by (simp add: and_then_def)

lemma and_then_Inr [simp]: "and_then (Inr a, s) f = f a s"
  by (simp add: and_then_def)

lemma and_then_cases:
  assumes "and_then r f = (res, w')"
  obtains (err) e where "r = (Inl e, w')" "res = Inl e"
        | (ok) a s where "r = (Inr a, s)" "f a s = (res, w')"
  using assms by (cases r; cases "fst r") (auto simp: and_then_def)

subsection \<open>One batch\<close>


lemma loss_batch_trace:
  "trace (snd (loss_batch c xb yb i g opt w)) =
     trace w @ (if opt then (if truthy g then [Backward, ClipGradNorm (the g), OptStep, ZeroGrad]
                             else [Backward, OptStep, ZeroGrad])
                else [])"
  by (simp add: loss_batch_def Let_def)

lemma loss_batch_ext:
  "ext (snd (loss_batch c xb yb i g opt w)) =
     (if opt then
        zero_grad c (opt_step c ((if truthy g then clip_grad_norm c (the g) else id)
          (backward c xb yb i (ext w))))
      else ext w)"
  by (simp add: loss_batch_def Let_def)

lemma loss_batch_rest:
  "files (snd (loss_batch c xb yb i g opt w)) = files w"
  "checkpoints (snd (loss_batch c xb yb i g opt w)) = checkpoints w"
  by (simp_all add: loss_batch_def Let_def)

text \<open>
  C4 (as amended). With an optimizer, \<^verbatim>\<open>loss_batch\<close> calls
  \<^verbatim>\<open>clip_grad_norm_\<close> between the backward pass and the optimizer step exactly
  when the configured norm is true in Python's sense, that is set and different from zero:
  an unset or zero norm disables clipping, every other norm, a negative one included, is
  passed to \<^verbatim>\<open>clip_grad_norm_\<close>. Without an optimizer nothing is called.
\<close>

theorem loss_batch_clips_iff_truthy:
  "trace (snd (loss_batch c xb yb i g True w)) =
     trace w @ (case g of
                  None \<Rightarrow> [Backward, OptStep, ZeroGrad]
                | Some r \<Rightarrow> if r = 0 then [Backward, OptStep, ZeroGrad]
                            else [Backward, ClipGradNorm r, OptStep, ZeroGrad])
   \<and> trace (snd (loss_batch c xb yb i g False w)) = trace w"
  by (cases g) (simp_all add: loss_batch_def Let_def)

text \<open>The fields of the instance, for evaluation.\<close>

lemma ex_collab_simps:
  "forward ex_collab = (\<lambda>x X m i. first_feature X)"
  "score ex_collab = (\<lambda>x X m i. first_feature X)"
  "loss_func ex_collab = (\<lambda>scores y. sum_list (map fin_part (concat scores)))"
  "backward ex_collab = (\<lambda>xb yb i x. x)"
  "clip_grad_norm ex_collab = (\<lambda>r x. x)"
  "opt_step ex_collab = (\<lambda>x. x\<lparr>opt_steps := Suc (opt_steps x)\<rparr>)"
  "zero_grad ex_collab = (\<lambda>x. x)"
  "model_train ex_collab = (\<lambda>x. x)"
  "model_eval ex_collab = (\<lambda>x. x)"
  "param_groups_lr ex_collab = (\<lambda>x. [1])"
  "scheduler_step ex_collab = (\<lambda>v x. x)"
  "metrics_module ex_collab =
     (\<lambda>name. if name = ''ndcg'' \<or> name = ''mrr'' then Some top_hit else None)"
  "PADDED_Y_VALUE ex_collab = Fin (- 1)"
  "get_num_params ex_collab = (\<lambda>x. 1)"
  "early_stop_init ex_collab =
     (\<lambda>p x. x\<lparr>stopper := \<lparr>patience = p, best_value = None, best_epoch = None\<rparr>\<rparr>)"
  "early_stop_step ex_collab = (\<lambda>v ep x. Inr (x\<lparr>stopper := es_step v ep (stopper x)\<rparr>))"
  "early_stop_stop_training ex_collab = (\<lambda>ep x. es_stop_training ep (stopper x))"
  by (simp_all add: ex_collab_def)

text \<open>
  C4 as stated fails: with the configured norm \<open>-1\<close> the gradient norm is clipped (with
  that norm), so a negative norm is not treated as clipping disabled.
\<close>

theorem loss_batch_negative_norm_clips:
  "ClipGradNorm (- 1) \<in>
     set (trace (snd (loss_batch ex_collab [[[Fin 6]]] [[Fin 1]] [[0]] (Some (- 1)) True ex_world)))"
  by (simp add: loss_batch_def Let_def)

text \<open>C4 (as amended) at the norms \<open>1/2\<close>, \<open>0\<close> and unset.\<close>

theorem loss_batch_clips_witness:
  "trace (snd (loss_batch ex_collab [[[Fin 6]]] [[Fin 1]] [[0]] (Some (1 / 2)) True ex_world)) =
     [Backward, ClipGradNorm (1 / 2), OptStep, ZeroGrad]
   \<and> trace (snd (loss_batch ex_collab [[[Fin 6]]] [[Fin 1]] [[0]] (Some 0) True ex_world)) =
     [Backward, OptStep, ZeroGrad]
   \<and> trace (snd (loss_batch ex_collab [[[Fin 6]]] [[Fin 1]] [[0]] None True ex_world)) =
     [Backward, OptStep, ZeroGrad]"
  using loss_batch_clips_iff_truthy [of ex_collab "[[[Fin 6]]]" "[[Fin 1]]" "[[0]]" "Some (1 / 2)" ex_world]
    loss_batch_clips_iff_truthy [of ex_collab "[[[Fin 6]]]" "[[Fin 1]]" "[[0]]" "Some 0" ex_world]
    loss_batch_clips_iff_truthy [of ex_collab "[[[Fin 6]]]" "[[Fin 1]]" "[[0]]" "None" ex_world]
  by (simp add: ex_world_def)

lemma quiet_refl [simp]: "quiet w w"
  by (simp add: quiet_def)

lemma quiet_trans: "quiet w w1 \<Longrightarrow> quiet w1 w2 \<Longrightarrow> quiet w w2"
  by (auto simp: quiet_def)

lemma quiet_emit: "\<not> major e \<Longrightarrow> quiet w w1 \<Longrightarrow> quiet w (emit e w1)"
  by (auto simp: quiet_def)

lemma quiet_on_ext: "quiet w w1 \<Longrightarrow> quiet w (on_ext f w1)"
  by (auto simp: quiet_def)

lemma quiet_ext_update: "quiet w w1 \<Longrightarrow> quiet w (w1\<lparr>ext := x\<rparr>)"
  by (auto simp: quiet_def)

lemma open_w_simps [simp]:
  "trace (open_w p w) = trace w" "ext (open_w p w) = ext w"
  "files (open_w p w) = (files w)(p \<mapsto> [])" "checkpoints (open_w p w) = checkpoints w"
  by (simp_all add: open_w_def)

lemma append_lines_simps [simp]:
  "trace (append_lines p ls w) = trace w" "ext (append_lines p ls w) = ext w"
  "checkpoints (append_lines p ls w) = checkpoints w"
  by (simp_all add: append_lines_def)

lemma quiet_open_w: "quiet w w1 \<Longrightarrow> quiet w (open_w p w1)"
  by (auto simp: quiet_def)

lemma quiet_append_lines: "quiet w w1 \<Longrightarrow> quiet w (append_lines p ls w1)"
  by (auto simp: quiet_def)

lemma quiet_loss_batch: "quiet w (snd (loss_batch c xb yb i g opt w))"
  by (simp add: quiet_def loss_batch_trace loss_batch_rest)

lemma loss_batches_quiet: "loss_batches c dl g opt w = (rs, w') \<Longrightarrow> quiet w w'"
proof (induction dl arbitrary: w rs)
  case Nil
  then show ?case by simp
next
  case (Cons b dl)
  obtain xb yb i where b: "b = (xb, yb, i)" by (cases b)
  obtain r w1 where lb: "loss_batch c xb yb i g opt w = (r, w1)" by (cases "loss_batch c xb yb i g opt w")
  obtain rs1 w2 where ls: "loss_batches c dl g opt w1 = (rs1, w2)" by (cases "loss_batches c dl g opt w1")
  from Cons.prems b lb ls have eq: "w2 = w'" by simp
  have "quiet w w1" using quiet_loss_batch [of w c xb yb i g opt] lb by simp
  moreover have "quiet w1 w'" using Cons.IH [of w1 rs1] ls eq by simp
  ultimately show ?case by (blast intro: quiet_trans)
qed



lemma loss_batches_prefix: "prefix (trace w) (trace (snd (loss_batches c dl g opt w)))"
proof (induction dl arbitrary: w)
  case Nil
  then show ?case by simp
next
  case (Cons b dl)
  obtain xb yb i where b: "b = (xb, yb, i)" by (cases b)
  have "prefix (trace w) (trace (snd (loss_batch c xb yb i g opt w)))"
    by (simp add: loss_batch_trace)
  with Cons.IH [of "snd (loss_batch c xb yb i g opt w)"] b show ?case
    by (auto simp: split_def Let_def intro: prefix_order.trans)
qed

lemma loss_batches_opt_step:
  "dl \<noteq> [] \<Longrightarrow> OptStep \<in> set (trace (snd (loss_batches c dl g True w)))"
proof (cases dl)
  case Nil
  then show "dl \<noteq> [] \<Longrightarrow> ?thesis" by simp
next
  case (Cons b dl')
  obtain xb yb i where b: "b = (xb, yb, i)" by (cases b)
  let ?w1 = "snd (loss_batch c xb yb i g True w)"
  have "OptStep \<in> set (trace ?w1)" by (simp add: loss_batch_trace)
  moreover have "prefix (trace ?w1) (trace (snd (loss_batches c dl' g True ?w1)))"
    by (rule loss_batches_prefix)
  ultimately show ?thesis using Cons b
    by (auto simp: split_def Let_def dest: set_mono_prefix)
qed

subsection \<open>The passes leave the course of the run alone\<close>

lemma metric_on_batches_quiet:
  "metric_on_batches c f ats dl w = (rs, w') \<Longrightarrow> quiet w w' \<and> ext w' = ext w \<and> files w' = files w"
proof (induction dl arbitrary: w rs)
  case Nil
  then show ?case by simp
next
  case (Cons b dl)
  obtain xb yb i where b: "b = (xb, yb, i)" by (cases b)
  let ?w1 = "emit (Score xb (padding_mask c yb) (Some i)) w"
  obtain rs1 w2 where ls: "metric_on_batches c f ats dl ?w1 = (rs1, w2)"
    by (cases "metric_on_batches c f ats dl ?w1")
  from Cons.prems b ls have eq: "w2 = w'" by (simp add: metric_on_batch_def Let_def)
  have "quiet w ?w1" by (simp add: quiet_emit)
  moreover have "quiet ?w1 w' \<and> ext w' = ext ?w1 \<and> files w' = files ?w1"
    using Cons.IH [of ?w1 rs1] ls eq by simp
  ultimately show ?case by (auto intro: quiet_trans)
qed

lemma metric_on_epoch_quiet:
  "metric_on_epoch c f ats dl w = (res, w') \<Longrightarrow> quiet w w' \<and> ext w' = ext w \<and> files w' = files w"
  using metric_on_batches_quiet [of c f ats dl w]
  by (auto simp: metric_on_epoch_def Let_def split: prod.splits sum.splits)

lemma compute_metrics_loop_quiet:
  "compute_metrics_loop c ms dl d w = (res, w') \<Longrightarrow> quiet w w' \<and> ext w' = ext w \<and> files w' = files w"
proof (induction ms arbitrary: d w)
  case Nil
  then show ?case by simp
next
  case (Cons m ms)
  obtain name ats where m: "m = (name, ats)" by (cases m)
  show ?case
  proof (cases "metrics_module c name")
    case None
    with Cons.prems m show ?thesis by simp
  next
    case (Some f)
    with Cons.prems m have
      "and_then (metric_on_epoch c f ats dl w)
         (\<lambda>vals w1. compute_metrics_loop c ms dl
            (dict_update d (py_dict (zip (metrics_names name ats) vals))) w1) = (res, w')"
      by simp
    then show ?thesis
    proof (cases rule: and_then_cases)
      case (err e)
      then show ?thesis using metric_on_epoch_quiet by blast
    next
      case (ok vals s)
      from metric_on_epoch_quiet [OF ok(1)] Cons.IH [OF ok(2)] show ?thesis
        by (auto intro: quiet_trans)
    qed
  qed
qed

lemma compute_metrics_quiet:
  "compute_metrics c ms dl w = (res, w') \<Longrightarrow> quiet w w' \<and> ext w' = ext w \<and> files w' = files w"
  unfolding compute_metrics_def by (rule compute_metrics_loop_quiet)


lemma init_metric_names_quiet:
  "init_metric_names out ep ns a w = (a', w') \<Longrightarrow> quiet w w' \<and> ext w' = ext w"
proof (induction ns arbitrary: a w)
  case Nil
  then show ?case by simp
next
  case (Cons n ns)
  from Cons.prems have
    "init_metric_names out ep ns (setdefault n [] a) (open_w (metric_file out ep n) w) = (a', w')"
    by simp
  from Cons.IH [OF this] show ?case
    by (auto intro: quiet_trans [OF quiet_open_w [OF quiet_refl]])
qed

lemma init_metric_files_quiet:
  "init_metric_files out ep ms a w = (a', w') \<Longrightarrow> quiet w w' \<and> ext w' = ext w"
proof (induction ms arbitrary: a w)
  case Nil
  then show ?case by simp
next
  case (Cons m ms)
  obtain name ats where m: "m = (name, ats)" by (cases m)
  obtain a1 w1 where i: "init_metric_names out ep (metrics_names name ats) a w = (a1, w1)"
    by (cases "init_metric_names out ep (metrics_names name ats) a w")
  with Cons.prems m have "init_metric_files out ep ms a1 w1 = (a', w')" by simp
  from Cons.IH [OF this] init_metric_names_quiet [OF i] show ?case
    by (auto intro: quiet_trans)
qed

lemma record_results_quiet:
  "record_results out ep cols a w = (res, w') \<Longrightarrow> quiet w w' \<and> ext w' = ext w"
proof (induction cols arbitrary: a w)
  case Nil
  then show ?case by simp
next
  case (Cons col cols)
  obtain name result where col: "col = (name, result)" by (cases col)
  let ?w1 = "append_lines (metric_file out ep name) (map Fin result) w"
  have q: "quiet w ?w1" by (simp add: quiet_append_lines)
  show ?case
  proof (cases "map_of a name")
    case None
    with Cons.prems col q show ?thesis by (auto simp: Let_def)
  next
    case (Some rs)
    with Cons.prems col have
      "record_results out ep cols (AList.update name (rs @ [result]) a) ?w1 = (res, w')"
      by (simp add: Let_def)
    from Cons.IH [OF this] q show ?thesis by (auto intro: quiet_trans)
  qed
qed

lemma query_metrics_quiet:
  "query_metrics c out ep ms pred y a w = (res, w') \<Longrightarrow> quiet w w' \<and> ext w' = ext w"
proof (induction ms arbitrary: a w)
  case Nil
  then show ?case by simp
next
  case (Cons m ms)
  obtain name ats where m: "m = (name, ats)" by (cases m)
  show ?case
  proof (cases "sublist ''ndcg'' name")
    case False
    with Cons.prems m have "query_metrics c out ep ms pred y a w = (res, w')" by simp
    from Cons.IH [OF this] show ?thesis .
  next
    case True
    show ?thesis
    proof (cases "metrics_module c name")
      case None
      with True Cons.prems m show ?thesis by simp
    next
      case (Some f)
      with True Cons.prems m have
        "and_then (record_results out ep
                     (zip (metrics_names name ats) (numpy_T (length ats) (f pred y ats))) a w)
           (\<lambda>a1 w1. query_metrics c out ep ms pred y a1 w1) = (res, w')"
        by simp
      then show ?thesis
      proof (cases rule: and_then_cases)
        case (err e)
        then show ?thesis using record_results_quiet by blast
      next
        case (ok a1 s)
        from record_results_quiet [OF ok(1)] Cons.IH [OF ok(2)] show ?thesis
          by (auto intro: quiet_trans)
      qed
    qed
  qed
qed

lemma test_queries_quiet:
  "test_queries c ms dl out ep qs a w = (res, w') \<Longrightarrow> quiet w w' \<and> ext w' = ext w"
proof (induction qs arbitrary: a w)
  case Nil
  then show ?case by simp
next
  case (Cons q qs)
  show ?case
  proof (cases "length (X_by_qid dl) \<le> q \<or> length (y_by_qid dl) \<le> q")
    case True
    with Cons.prems show ?thesis by simp
  next
    case False
    let ?X = "nan_to_zero [X_by_qid dl ! q]"
    let ?y = "[y_by_qid dl ! q]"
    let ?pred = "score c (ext w) ?X (padding_mask c ?y) None"
    let ?w2 = "append_lines (predictions_file out ep) (concat ?pred)
                 (emit (Score ?X (padding_mask c ?y) None) w)"
    have q2: "quiet w ?w2 \<and> ext ?w2 = ext w"
      by (simp add: quiet_append_lines quiet_emit)
    from False Cons.prems have
      "and_then (query_metrics c out ep ms ?pred ?y a ?w2)
         (\<lambda>a1 w3. test_queries c ms dl out ep qs a1 w3) = (res, w')"
      by (simp add: Let_def)
    then show ?thesis
    proof (cases rule: and_then_cases)
      case (err e)
      from query_metrics_quiet [OF err(1)] q2 show ?thesis by (auto intro: quiet_trans)
    next
      case (ok a1 s)
      from query_metrics_quiet [OF ok(1)] Cons.IH [OF ok(2)] q2 show ?thesis
        by (auto intro: quiet_trans)
    qed
  qed
qed

lemma compute_test_quiet:
  assumes "compute_test c ms dl out ep w = (res, w')"
  shows "quiet w w' \<and> ext w' = ext w"
proof -
  let ?w0 = "open_w (predictions_file out ep) w"
  obtain a0 w1 where i: "init_metric_files out ep ms [] ?w0 = (a0, w1)"
    by (cases "init_metric_files out ep ms [] ?w0")
  have q1: "quiet w w1 \<and> ext w1 = ext w"
    using init_metric_files_quiet [OF i] quiet_open_w [OF quiet_refl, of w]
    by (auto intro: quiet_trans)
  from assms i have
    "and_then (test_queries c ms dl out ep [0..<length (X_by_qid dl)] a0 w1)
       (\<lambda>a w2. (collect_means a [], w2)) = (res, w')"
    by (simp add: compute_test_def Let_def)
  then show ?thesis
  proof (cases rule: and_then_cases)
    case (err e)
    from test_queries_quiet [OF err(1)] q1 show ?thesis by (auto intro: quiet_trans)
  next
    case (ok a s)
    then have "s = w'" by simp
    with test_queries_quiet [OF ok(1)] q1 show ?thesis by (auto intro: quiet_trans)
  qed
qed

subsection \<open>The phases of an epoch\<close>


lemma train_pass_trace:
  assumes "train_pass c tr cfg g w = (res, w')"
  shows "\<exists>evs. trace w' = trace w @ evs \<and> filter major evs = [ModelTrain]"
    and "checkpoints w' = checkpoints w"
proof -
  let ?w2 = "emit ModelTrain (on_ext (model_train c)
               (emit (LogLearningRate (get_current_lr c (ext w))) w))"
  obtain rt w3 where lt: "loss_batches c (batches tr) g True ?w2 = (rt, w3)"
    by (cases "loss_batches c (batches tr) g True ?w2")
  have q3: "quiet ?w2 w3" using loss_batches_quiet [OF lt] .
  have "quiet ?w2 w'"
  proof (cases "rt = []")
    case True
    with assms lt q3 show ?thesis by (simp add: train_pass_def Let_def unzip_results_def)
  next
    case False
    with assms lt have
      "and_then (compute_metrics c (metrics cfg) (batches tr) w3)
         (\<lambda>t_metrics w4. (Inr (size_weighted_loss (map fst rt) (map snd rt), t_metrics), w4))
       = (res, w')"
      by (simp add: train_pass_def Let_def unzip_results_def)
    then show ?thesis
    proof (cases rule: and_then_cases)
      case (err e)
      with compute_metrics_quiet q3 show ?thesis by (blast intro: quiet_trans)
    next
      case (ok a s)
      then have "s = w'" by simp
      with ok compute_metrics_quiet q3 show ?thesis by (blast intro: quiet_trans)
    qed
  qed
  then obtain evs where evs: "trace w' = trace ?w2 @ evs" "filter major evs = []"
    and ck: "checkpoints w' = checkpoints ?w2"
    by (auto simp: quiet_def)
  from evs show "\<exists>evs. trace w' = trace w @ evs \<and> filter major evs = [ModelTrain]"
    by (intro exI [of _ "[LogLearningRate (get_current_lr c (ext w)), ModelTrain] @ evs"]) simp
  from ck show "checkpoints w' = checkpoints w" by simp
qed


lemma val_pass_quiet:
  assumes "val_pass c va cfg g w = (res, w')"
  shows "quiet w w'"
proof -
  let ?w5 = "emit ModelEval (on_ext (model_eval c) w)"
  obtain rv w6 where lv: "loss_batches c (batches va) g False ?w5 = (rv, w6)"
    by (cases "loss_batches c (batches va) g False ?w5")
  have q5: "quiet w ?w5" by (simp add: quiet_emit quiet_on_ext)
  have q6: "quiet w w6" using loss_batches_quiet [OF lv] q5 by (blast intro: quiet_trans)
  show ?thesis
  proof (cases "rv = []")
    case True
    with assms lv q6 show ?thesis by (simp add: val_pass_def Let_def unzip_results_def)
  next
    case False
    with assms lv have
      "and_then (compute_metrics c (metrics cfg) (batches va) w6)
         (\<lambda>v_metrics w7. (Inr (size_weighted_loss (map fst rv) (map snd rv), v_metrics), w7))
       = (res, w')"
      by (simp add: val_pass_def Let_def unzip_results_def)
    then show ?thesis
    proof (cases rule: and_then_cases)
      case (err e)
      with compute_metrics_quiet q6 show ?thesis by (blast intro: quiet_trans)
    next
      case (ok a s)
      then have "s = w'" by simp
      with ok compute_metrics_quiet q6 show ?thesis by (blast intro: quiet_trans)
    qed
  qed
qed

lemma step_scheduler_quiet: "step_scheduler c sched vm key w = (res, w') \<Longrightarrow> quiet w w'"
  by (auto simp: step_scheduler_def quiet_emit quiet_on_ext
      split: option.splits scheduler.splits)

lemma step_early_stop_trace:
  assumes "step_early_stop c v ep w = (res, w')"
  shows "trace w' = trace w @ (if res = Inr True then [LogEarlyStop ep] else [])"
    and "checkpoints w' = checkpoints w"
  using assms
  by (auto simp: step_early_stop_def Let_def split: sum.splits if_splits)

lemma epoch_end_trace:
  assumes "epoch_end c sched va cfg out ep tls tm vls vm w = (res, w')"
  shows "\<exists>evs. trace w' = trace w @ evs \<and>
           (filter major evs = [LogSummary ep tls vls tm vm] @
              (if res = Inr True then [LogEarlyStop ep] else []))"
    and "checkpoints w' = checkpoints w"
proof -
  let ?w9 = "emit (LogSummary ep tls vls tm vm)
               (emit (SaveToTensorboard
                        (tensorboard_metrics_dict tls vls tm vm (get_current_lr c (ext w))) ep) w)"
  have t9: "trace ?w9 = trace w @ [SaveToTensorboard
              (tensorboard_metrics_dict tls vls tm vm (get_current_lr c (ext w))) ep,
              LogSummary ep tls vls tm vm]"
    and c9: "checkpoints ?w9 = checkpoints w" by simp_all
  from assms have e:
    "and_then (step_scheduler c sched vm (val_metric cfg) ?w9) (\<lambda>_ w10.
       and_then (compute_test c (metrics cfg) va out ep w10) (\<lambda>_ w11.
         step_early_stop c (map_of vm (val_metric cfg)) ep w11)) = (res, w')"
    by (simp add: epoch_end_def Let_def)
  have "\<exists>evs. trace w' = trace ?w9 @ evs \<and>
          filter major evs = (if res = Inr True then [LogEarlyStop ep] else [])
          \<and> checkpoints w' = checkpoints ?w9"
    using e
  proof (cases rule: and_then_cases)
    case (err e1)
    from step_scheduler_quiet [OF err(1)] err(2) show ?thesis by (auto simp: quiet_def)
  next
    case (ok u w10)
    have q10: "quiet ?w9 w10" using step_scheduler_quiet [OF ok(1)] .
    from ok(2) show ?thesis
    proof (cases rule: and_then_cases)
      case (err e2)
      from compute_test_quiet [OF err(1)] q10 have "quiet ?w9 w'" by (blast intro: quiet_trans)
      with err(2) show ?thesis by (auto simp: quiet_def)
    next
      case (ok tres w11)
      from compute_test_quiet [OF ok(1)] q10 have "quiet ?w9 w11" by (blast intro: quiet_trans)
      then obtain evs where "trace w11 = trace ?w9 @ evs" "filter major evs = []"
        "checkpoints w11 = checkpoints ?w9" by (auto simp: quiet_def)
      with step_early_stop_trace [OF ok(2)] show ?thesis
        by (intro exI [of _ "evs @ (if res = Inr True then [LogEarlyStop ep] else [])"]) simp
    qed
  qed
  then obtain evs where evs: "trace w' = trace ?w9 @ evs"
    "filter major evs = (if res = Inr True then [LogEarlyStop ep] else [])"
    "checkpoints w' = checkpoints ?w9" by blast
  from evs(1,2) t9 show "\<exists>evs. trace w' = trace w @ evs \<and>
           (filter major evs = [LogSummary ep tls vls tm vm] @
              (if res = Inr True then [LogEarlyStop ep] else []))"
    by (intro exI [of _ "[SaveToTensorboard
              (tensorboard_metrics_dict tls vls tm vm (get_current_lr c (ext w))) ep,
              LogSummary ep tls vls tm vm] @ evs"]) simp
  from evs(3) c9 show "checkpoints w' = checkpoints w" by simp
qed


lemma fit_epoch_trace:
  assumes "fit_epoch c sched tr va cfg g out ep w = (res, w')"
  shows "checkpoints w' = checkpoints w \<and>
    (\<exists>evs. trace w' = trace w @ evs \<and>
       (case res of
          Inl e \<Rightarrow> filter major evs = [ModelTrain] \<or>
                   (\<exists>a b tm vm. filter major evs = [ModelTrain, LogSummary ep a b tm vm])
        | Inr (L, stop) \<Rightarrow>
            (\<exists>a b tm vm.
               L = \<lparr>epoch = Some ep, train_loss = Some a, val_loss = Some b,
                     train_metrics = Some tm, val_metrics = Some vm\<rparr> \<and>
               filter major evs =
                 [ModelTrain, LogSummary ep a b tm vm] @ (if stop then [LogEarlyStop ep] else []))))"
  using assms unfolding fit_epoch_def
proof (cases rule: and_then_cases)
  case (err e)
  from train_pass_trace [OF err(1)] err(2) show ?thesis by auto
next
  case (ok p1 w4)
  obtain tls tm where p1: "p1 = (tls, tm)" by (cases p1)
  from train_pass_trace [OF ok(1)] obtain ev1 where
    ev1: "trace w4 = trace w @ ev1" "filter major ev1 = [ModelTrain]"
    and ck1: "checkpoints w4 = checkpoints w" by blast
  from ok(2) p1 have
    "and_then (val_pass c va cfg g w4) (\<lambda>(v_loss, v_metrics) w7.
       and_then (epoch_end c sched va cfg out ep tls tm v_loss v_metrics w7)
         (\<lambda>stop w12.
            (Inr (\<lparr>epoch = Some ep, train_loss = Some tls, val_loss = Some v_loss,
                   train_metrics = Some tm, val_metrics = Some v_metrics\<rparr>, stop), w12)))
     = (res, w')" by simp
  then show ?thesis
  proof (cases rule: and_then_cases)
    case (err e)
    from val_pass_quiet [OF err(1)] obtain ev2 where
      "trace w' = trace w4 @ ev2" "filter major ev2 = []" "checkpoints w' = checkpoints w4"
      by (auto simp: quiet_def)
    with ev1 ck1 err(2) show ?thesis
      by (intro conjI exI [of _ "ev1 @ ev2"]) simp_all
  next
    case (ok p2 w7)
    obtain vls vm where p2: "p2 = (vls, vm)" by (cases p2)
    from val_pass_quiet [OF ok(1)] obtain ev2 where
      ev2: "trace w7 = trace w4 @ ev2" "filter major ev2 = []"
      and ck2: "checkpoints w7 = checkpoints w4"
      by (auto simp: quiet_def)
    from ok(2) p2 have
      "and_then (epoch_end c sched va cfg out ep tls tm vls vm w7)
         (\<lambda>stop w12.
            (Inr (\<lparr>epoch = Some ep, train_loss = Some tls, val_loss = Some vls,
                   train_metrics = Some tm, val_metrics = Some vm\<rparr>, stop), w12))
       = (res, w')" by simp
    then show ?thesis
    proof (cases rule: and_then_cases)
      case (err e)
      from epoch_end_trace [OF err(1)] obtain ev3 where
        "trace w' = trace w7 @ ev3" "filter major ev3 = [LogSummary ep tls vls tm vm]"
        "checkpoints w' = checkpoints w7" by auto
      with ev1 ev2 ck1 ck2 err(2) show ?thesis
        by (intro conjI exI [of _ "ev1 @ ev2 @ ev3"]) auto
    next
      case (ok stop w12)
      from epoch_end_trace [OF ok(1)] obtain ev3 where
        "trace w12 = trace w7 @ ev3"
        "filter major ev3 = [LogSummary ep tls vls tm vm] @ (if stop then [LogEarlyStop ep] else [])"
        "checkpoints w12 = checkpoints w7" by auto
      with ev1 ev2 ck1 ck2 ok(2) show ?thesis
        by (intro conjI exI [of _ "ev1 @ ev2 @ ev3"]) auto
    qed
  qed
qed

lemma no_marks: "filter major evs = ms \<Longrightarrow> major x \<Longrightarrow> x \<notin> set ms \<Longrightarrow> x \<notin> set evs"
  by auto

subsection \<open>The loop and the call\<close>

lemma fit_loop_trace:
  assumes "fit_loop c sched tr va cfg g out eps L w = (res, w')"
  shows "checkpoints w' = checkpoints w \<and>
    (\<exists>evs. trace w' = trace w @ evs \<and>
       (\<forall>k. TorchSave k \<notin> set evs) \<and> CloseAllWriters \<notin> set evs \<and>
       (\<forall>e. LogEarlyStop e \<in> set evs \<longrightarrow>
          (\<exists>pre post sms a b tm vm.
             eps = pre @ e # post \<and>
             res = Inr \<lparr>epoch = Some e, train_loss = Some a, val_loss = Some b,
                        train_metrics = Some tm, val_metrics = Some vm\<rparr> \<and>
             filter major evs = concat (map (\<lambda>s. [ModelTrain, s]) sms) @ [LogEarlyStop e] \<and>
             list_all2 (\<lambda>s k. \<exists>a b tm vm. s = LogSummary k a b tm vm) sms (pre @ [e]) \<and>
             last sms = LogSummary e a b tm vm)))"
  using assms
proof (induction eps arbitrary: L w)
  case Nil
  then show ?case by simp
next
  case (Cons ep eps)
  obtain r1 w1 where fe: "fit_epoch c sched tr va cfg g out ep w = (r1, w1)"
    by (cases "fit_epoch c sched tr va cfg g out ep w")
  from fit_epoch_trace [OF fe] obtain ev1 where
    ck1: "checkpoints w1 = checkpoints w" and t1: "trace w1 = trace w @ ev1"
    and sh: "case r1 of
          Inl e \<Rightarrow> filter major ev1 = [ModelTrain] \<or>
                   (\<exists>a b tm vm. filter major ev1 = [ModelTrain, LogSummary ep a b tm vm])
        | Inr (L, stop) \<Rightarrow>
            (\<exists>a b tm vm.
               L = \<lparr>epoch = Some ep, train_loss = Some a, val_loss = Some b,
                     train_metrics = Some tm, val_metrics = Some vm\<rparr> \<and>
               filter major ev1 =
                 [ModelTrain, LogSummary ep a b tm vm] @ (if stop then [LogEarlyStop ep] else []))"
    by blast
  show ?case
  proof (cases r1)
    case (Inl e1)
    with Cons.prems fe have res: "res = Inl e1" "w' = w1" by simp_all
    from sh Inl obtain ms where ms: "filter major ev1 = ms"
      and ms': "ms = [ModelTrain] \<or> (\<exists>a b tm vm. ms = [ModelTrain, LogSummary ep a b tm vm])"
      by auto
    have n1: "TorchSave k \<notin> set ev1" for k
      using no_marks [OF ms, of "TorchSave k"] ms' by auto
    have n2: "CloseAllWriters \<notin> set ev1"
      using no_marks [OF ms, of CloseAllWriters] ms' by auto
    have n3: "LogEarlyStop e \<notin> set ev1" for e
      using no_marks [OF ms, of "LogEarlyStop e"] ms' by auto
    show ?thesis
    proof (intro conjI exI [of _ ev1])
      show "checkpoints w' = checkpoints w" using res ck1 by simp
      show "trace w' = trace w @ ev1" using res t1 by simp
      show "\<forall>k. TorchSave k \<notin> set ev1" using n1 by simp
      show "CloseAllWriters \<notin> set ev1" using n2 .
      show "\<forall>e. LogEarlyStop e \<in> set ev1 \<longrightarrow>
          (\<exists>pre post sms a b tm vm.
             ep # eps = pre @ e # post \<and>
             res = Inr \<lparr>epoch = Some e, train_loss = Some a, val_loss = Some b,
                        train_metrics = Some tm, val_metrics = Some vm\<rparr> \<and>
             filter major ev1 = concat (map (\<lambda>s. [ModelTrain, s]) sms) @ [LogEarlyStop e] \<and>
             list_all2 (\<lambda>s k. \<exists>a b tm vm. s = LogSummary k a b tm vm) sms (pre @ [e]) \<and>
             last sms = LogSummary e a b tm vm)"
        using n3 by simp
    qed
  next
    case (Inr p)
    obtain L1 stop where p: "p = (L1, stop)" by (cases p)
    from sh Inr p obtain a b tm vm where
      L1: "L1 = \<lparr>epoch = Some ep, train_loss = Some a, val_loss = Some b,
                 train_metrics = Some tm, val_metrics = Some vm\<rparr>"
      and f1: "filter major ev1 =
                 [ModelTrain, LogSummary ep a b tm vm] @ (if stop then [LogEarlyStop ep] else [])"
      by auto
    show ?thesis
    proof (cases stop)
      case True
      with Cons.prems fe Inr p have res: "res = Inr L1" "w' = w1" by simp_all
      from f1 True have f1': "filter major ev1 = [ModelTrain, LogSummary ep a b tm vm, LogEarlyStop ep]"
        by simp
      have n1: "TorchSave k \<notin> set ev1" for k
        using no_marks [OF f1', of "TorchSave k"] by simp
      have n2: "CloseAllWriters \<notin> set ev1"
        using no_marks [OF f1', of CloseAllWriters] by simp
      have only: "e = ep" if "LogEarlyStop e \<in> set ev1" for e
        using no_marks [OF f1', of "LogEarlyStop e"] that by auto
      have ex: "\<exists>pre post sms a' b' tm' vm'.
             ep # eps = pre @ ep # post \<and>
             res = Inr \<lparr>epoch = Some ep, train_loss = Some a', val_loss = Some b',
                        train_metrics = Some tm', val_metrics = Some vm'\<rparr> \<and>
             filter major ev1 = concat (map (\<lambda>s. [ModelTrain, s]) sms) @ [LogEarlyStop ep] \<and>
             list_all2 (\<lambda>s k. \<exists>a b tm vm. s = LogSummary k a b tm vm) sms (pre @ [ep]) \<and>
             last sms = LogSummary ep a' b' tm' vm'"
        using res L1 f1'
        by (intro exI [of _ "[]"] exI [of _ eps] exI [of _ "[LogSummary ep a b tm vm]"]
            exI [of _ a] exI [of _ b] exI [of _ tm] exI [of _ vm]) simp
      show ?thesis
      proof (intro conjI exI [of _ ev1])
        show "checkpoints w' = checkpoints w" using res ck1 by simp
        show "trace w' = trace w @ ev1" using res t1 by simp
        show "\<forall>k. TorchSave k \<notin> set ev1" using n1 by simp
        show "CloseAllWriters \<notin> set ev1" using n2 .
        show "\<forall>e. LogEarlyStop e \<in> set ev1 \<longrightarrow>
          (\<exists>pre post sms a b tm vm.
             ep # eps = pre @ e # post \<and>
             res = Inr \<lparr>epoch = Some e, train_loss = Some a, val_loss = Some b,
                        train_metrics = Some tm, val_metrics = Some vm\<rparr> \<and>
             filter major ev1 = concat (map (\<lambda>s. [ModelTrain, s]) sms) @ [LogEarlyStop e] \<and>
             list_all2 (\<lambda>s k. \<exists>a b tm vm. s = LogSummary k a b tm vm) sms (pre @ [e]) \<and>
             last sms = LogSummary e a b tm vm)"
        proof (intro allI impI)
          fix e assume "LogEarlyStop e \<in> set ev1"
          then have "e = ep" by (rule only)
          with ex show "\<exists>pre post sms a b tm vm.
             ep # eps = pre @ e # post \<and>
             res = Inr \<lparr>epoch = Some e, train_loss = Some a, val_loss = Some b,
                        train_metrics = Some tm, val_metrics = Some vm\<rparr> \<and>
             filter major ev1 = concat (map (\<lambda>s. [ModelTrain, s]) sms) @ [LogEarlyStop e] \<and>
             list_all2 (\<lambda>s k. \<exists>a b tm vm. s = LogSummary k a b tm vm) sms (pre @ [e]) \<and>
             last sms = LogSummary e a b tm vm" by simp
        qed
      qed
    next
      case False
      with Cons.prems fe Inr p have rest: "fit_loop c sched tr va cfg g out eps L1 w1 = (res, w')"
        by simp
      from f1 False have f1': "filter major ev1 = [ModelTrain, LogSummary ep a b tm vm]" by simp
      have n1: "TorchSave k \<notin> set ev1" for k
        using no_marks [OF f1', of "TorchSave k"] by simp
      have n2: "CloseAllWriters \<notin> set ev1"
        using no_marks [OF f1', of CloseAllWriters] by simp
      have n3: "LogEarlyStop e \<notin> set ev1" for e
        using no_marks [OF f1', of "LogEarlyStop e"] by simp
      from Cons.IH [OF rest] obtain ev2 where
        ck2: "checkpoints w' = checkpoints w1" and t2: "trace w' = trace w1 @ ev2"
        and m1: "\<forall>k. TorchSave k \<notin> set ev2" and m2: "CloseAllWriters \<notin> set ev2"
        and st2: "\<forall>e. LogEarlyStop e \<in> set ev2 \<longrightarrow>
          (\<exists>pre post sms a b tm vm.
             eps = pre @ e # post \<and>
             res = Inr \<lparr>epoch = Some e, train_loss = Some a, val_loss = Some b,
                        train_metrics = Some tm, val_metrics = Some vm\<rparr> \<and>
             filter major ev2 = concat (map (\<lambda>s. [ModelTrain, s]) sms) @ [LogEarlyStop e] \<and>
             list_all2 (\<lambda>s k. \<exists>a b tm vm. s = LogSummary k a b tm vm) sms (pre @ [e]) \<and>
             last sms = LogSummary e a b tm vm)"
        by blast
      show ?thesis
      proof (intro conjI exI [of _ "ev1 @ ev2"])
        show "checkpoints w' = checkpoints w" using ck1 ck2 by simp
        show "trace w' = trace w @ ev1 @ ev2" using t1 t2 by simp
        show "\<forall>k. TorchSave k \<notin> set (ev1 @ ev2)" using n1 m1 by simp
        show "CloseAllWriters \<notin> set (ev1 @ ev2)" using n2 m2 by simp
        show "\<forall>e. LogEarlyStop e \<in> set (ev1 @ ev2) \<longrightarrow>
          (\<exists>pre post sms a b tm vm.
             ep # eps = pre @ e # post \<and>
             res = Inr \<lparr>epoch = Some e, train_loss = Some a, val_loss = Some b,
                        train_metrics = Some tm, val_metrics = Some vm\<rparr> \<and>
             filter major (ev1 @ ev2) = concat (map (\<lambda>s. [ModelTrain, s]) sms) @ [LogEarlyStop e] \<and>
             list_all2 (\<lambda>s k. \<exists>a b tm vm. s = LogSummary k a b tm vm) sms (pre @ [e]) \<and>
             last sms = LogSummary e a b tm vm)"
        proof (intro allI impI)
          fix e assume "LogEarlyStop e \<in> set (ev1 @ ev2)"
          with n3 have mem2: "LogEarlyStop e \<in> set ev2" by simp
          from st2 [rule_format, OF mem2]
          obtain pre post sms a' b' tm' vm' where
            h1: "eps = pre @ e # post"
            and h2: "res = Inr \<lparr>epoch = Some e, train_loss = Some a', val_loss = Some b',
                        train_metrics = Some tm', val_metrics = Some vm'\<rparr>"
            and h3: "filter major ev2 = concat (map (\<lambda>s. [ModelTrain, s]) sms) @ [LogEarlyStop e]"
            and h4: "list_all2 (\<lambda>s k. \<exists>a b tm vm. s = LogSummary k a b tm vm) sms (pre @ [e])"
            and h5: "last sms = LogSummary e a' b' tm' vm'"
            by (elim exE conjE) (rule that; assumption)
          from h4 have "length sms = length (pre @ [e])" by (rule list_all2_lengthD)
          then have ne: "sms \<noteq> []" by auto
          have g1: "ep # eps = (ep # pre) @ e # post" using h1 by simp
          have g3: "filter major (ev1 @ ev2) =
              concat (map (\<lambda>s. [ModelTrain, s]) (LogSummary ep a b tm vm # sms)) @ [LogEarlyStop e]"
            using f1' h3 by simp
          have g4: "list_all2 (\<lambda>s k. \<exists>a b tm vm. s = LogSummary k a b tm vm)
                      (LogSummary ep a b tm vm # sms) ((ep # pre) @ [e])"
            using h4 by simp
          have g5: "last (LogSummary ep a b tm vm # sms) = LogSummary e a' b' tm' vm'"
            using h5 ne by simp
          show "\<exists>pre post sms a b tm vm.
             ep # eps = pre @ e # post \<and>
             res = Inr \<lparr>epoch = Some e, train_loss = Some a, val_loss = Some b,
                        train_metrics = Some tm, val_metrics = Some vm\<rparr> \<and>
             filter major (ev1 @ ev2) = concat (map (\<lambda>s. [ModelTrain, s]) sms) @ [LogEarlyStop e] \<and>
             list_all2 (\<lambda>s k. \<exists>a b tm vm. s = LogSummary k a b tm vm) sms (pre @ [e]) \<and>
             last sms = LogSummary e a b tm vm"
            by (intro exI conjI) (rule g1, rule h2, rule g3, rule g4, rule g5)
        qed
      qed
    qed
  qed
qed

lemma fit_loop_stopped:
  assumes "fit_loop c sched tr va cfg g out eps L w = (res, w')"
  shows "\<exists>evs. trace w' = trace w @ evs \<and>
       (\<forall>k. TorchSave k \<notin> set evs) \<and> CloseAllWriters \<notin> set evs \<and>
       (\<forall>e. LogEarlyStop e \<in> set evs \<longrightarrow> stopped eps res evs e)"
    and "checkpoints w' = checkpoints w"
  using fit_loop_trace [OF assms] unfolding stopped_def by (rule conjunct2, rule conjunct1)

lemma upt_split:
  assumes "[0..<n] = pre @ e # post"
  shows "pre = [0..<e]" and "e < n"
proof -
  have "length ([0..<n]) = length (pre @ e # post)" using assms by simp
  then have len: "length pre < n" by simp
  have "[0..<n] ! length pre = e" unfolding assms by simp
  with len have e: "e = length pre" by simp
  have "pre = take (length pre) [0..<n]" unfolding assms by simp
  also have "\<dots> = [0..<length pre]" using len by (simp add: take_upt)
  finally show "pre = [0..<e]" using e by simp
  from len e show "e < n" by simp
qed

lemma py_dict_result:
  "py_dict [(''epochs'', a), (''train_metrics'', b), (''val_metrics'', c), (''num_params'', d)] =
     [(''epochs'', a), (''train_metrics'', b), (''val_metrics'', c), (''num_params'', d)]"
  by (simp add: py_dict_def)

lemma fit_result_Inr:
  "fit_result \<lparr>epoch = Some e, train_loss = a, val_loss = b, train_metrics = Some tm,
               val_metrics = Some vm\<rparr> n =
     Inr [(''epochs'', VInt (int e)), (''train_metrics'', VDict tm), (''val_metrics'', VDict vm),
          (''num_params'', VInt n)]"
  by (simp add: fit_result_def py_dict_result)


lemma fit_unfold:
  "fit epochs c sched tr va cfg g p out w =
     and_then (fit_loop c sched tr va cfg g out [0..<nat epochs] unbound
                 (on_ext (early_stop_init c p) w))
       (\<lambda>locals w1.
          (fit_result locals (get_num_params c (ext w)),
           emit CloseAllWriters
             (emit (TorchSave (path_join out ''model.pkl''))
                (w1\<lparr>checkpoints := (checkpoints w1)(path_join out ''model.pkl'' \<mapsto> ext w1)\<rparr>))))"
  by (simp add: fit_def Let_def)


lemma fit_zero:
  assumes "epochs \<le> 0"
  shows "fit epochs c sched tr va cfg g p out w =
     (Inl UnboundLocalError,
      emit CloseAllWriters
        (emit (TorchSave (path_join out ''model.pkl''))
           ((on_ext (early_stop_init c p) w)
              \<lparr>checkpoints := (checkpoints w)(path_join out ''model.pkl'' \<mapsto>
                 early_stop_init c p (ext w))\<rparr>)))"
  using assms by (simp add: fit_unfold fit_result_def unbound_def)

text \<open>
  C9. With \<^verbatim>\<open>epochs = 0\<close> the loop body never runs: \<^verbatim>\<open>fit\<close> writes the checkpoint
  \<^verbatim>\<open>model.pkl\<close>, closes the writers and then fails on the unbound name
  \<^verbatim>\<open>epoch\<close> instead of returning; so a call that returns has \<open>epochs \<ge> 1\<close>.
\<close>

theorem fit_zero_epochs:
  "fst (fit 0 c sched tr va cfg g p out w) = Inl UnboundLocalError
   \<and> trace (snd (fit 0 c sched tr va cfg g p out w)) =
       trace w @ [TorchSave (path_join out ''model.pkl''), CloseAllWriters]
   \<and> checkpoints (snd (fit 0 c sched tr va cfg g p out w)) (path_join out ''model.pkl'') =
       Some (early_stop_init c p (ext w))
   \<and> (\<forall>r. fst (fit epochs c sched tr va cfg g p out w) = Inr r \<longrightarrow> 1 \<le> epochs)"
proof -
  have "1 \<le> epochs" if "fst (fit epochs c sched tr va cfg g p out w) = Inr r" for r
  proof (rule ccontr)
    assume "\<not> 1 \<le> epochs"
    then have "epochs \<le> 0" by simp
    from fit_zero [OF this, of c sched tr va cfg g p out w] that show False by simp
  qed
  then show ?thesis by (simp add: fit_zero)
qed

text \<open>
  C8. When the early-stop message of epoch \<open>e\<close> is among the events of a call of
  \<^verbatim>\<open>fit\<close>, the call ran the epochs \<open>0..e\<close> in order and no other, then saved the
  checkpoint \<^verbatim>\<open>model.pkl\<close> (the parameters as they are at the end) and closed the
  writers, and it returns the dict built from epoch \<open>e\<close> and the metrics in the summary
  of epoch \<open>e\<close>.
\<close>

theorem fit_early_stop:
  assumes "fit epochs c sched tr va cfg g p out w = (r, w')"
    and "LogEarlyStop e \<in> set (drop (length (trace w)) (trace w'))"
  shows "\<exists>sms tm vm.
      r = Inr [(''epochs'', VInt (int e)), (''train_metrics'', VDict tm),
               (''val_metrics'', VDict vm), (''num_params'', VInt (get_num_params c (ext w)))]
    \<and> filter major (drop (length (trace w)) (trace w')) =
        concat (map (\<lambda>s. [ModelTrain, s]) sms) @
        [LogEarlyStop e, TorchSave (path_join out ''model.pkl''), CloseAllWriters]
    \<and> list_all2 (\<lambda>s k. \<exists>a b tm' vm'. s = LogSummary k a b tm' vm') sms [0..<Suc e]
    \<and> (\<exists>a b. last sms = LogSummary e a b tm vm)
    \<and> checkpoints w' (path_join out ''model.pkl'') = Some (ext w')
    \<and> int e < epochs"
  using assms(1) unfolding fit_unfold
proof (cases rule: and_then_cases)
  case (err e1)
  from fit_loop_stopped(1) [OF err(1)] obtain evs where
    t: "trace w' = trace (on_ext (early_stop_init c p) w) @ evs"
    and st: "\<forall>e. LogEarlyStop e \<in> set evs \<longrightarrow> stopped [0..<nat epochs] (Inl e1) evs e"
    by blast
  from t assms(2) have "LogEarlyStop e \<in> set evs" by simp
  with st have "stopped [0..<nat epochs] (Inl e1) evs e" by blast
  then show ?thesis by (simp add: stopped_def)
next
  case (ok L w1)
  let ?p = "path_join out ''model.pkl''"
  from fit_loop_stopped(1) [OF ok(1)] obtain evs where
    t: "trace w1 = trace (on_ext (early_stop_init c p) w) @ evs"
    and st: "\<forall>e. LogEarlyStop e \<in> set evs \<longrightarrow> stopped [0..<nat epochs] (Inr L) evs e"
    by blast
  from ok(2) have r: "r = fit_result L (get_num_params c (ext w))"
    and w': "w' = emit CloseAllWriters (emit (TorchSave ?p)
                (w1\<lparr>checkpoints := (checkpoints w1)(?p \<mapsto> ext w1)\<rparr>))"
    by simp_all
  from w' t have t': "drop (length (trace w)) (trace w') = evs @ [TorchSave ?p, CloseAllWriters]"
    by simp
  with assms(2) have mem: "LogEarlyStop e \<in> set evs" by simp
  from st mem have "stopped [0..<nat epochs] (Inr L) evs e" by blast
  then obtain pre post sms a b tm vm where
    h1: "[0..<nat epochs] = pre @ e # post"
    and h2: "L = \<lparr>epoch = Some e, train_loss = Some a, val_loss = Some b,
                        train_metrics = Some tm, val_metrics = Some vm\<rparr>"
    and h3: "filter major evs = concat (map (\<lambda>s. [ModelTrain, s]) sms) @ [LogEarlyStop e]"
    and h4: "list_all2 (\<lambda>s k. \<exists>a b tm vm. s = LogSummary k a b tm vm) sms (pre @ [e])"
    and h5: "last sms = LogSummary e a b tm vm"
    unfolding stopped_def by (elim exE conjE) (rule that; simp)
  from upt_split [OF h1] have pre: "pre @ [e] = [0..<Suc e]" and lt: "e < nat epochs" by simp_all
  have c1: "r = Inr [(''epochs'', VInt (int e)), (''train_metrics'', VDict tm),
               (''val_metrics'', VDict vm), (''num_params'', VInt (get_num_params c (ext w)))]"
    using r h2 by (simp add: fit_result_Inr)
  have c2: "filter major (drop (length (trace w)) (trace w')) =
        concat (map (\<lambda>s. [ModelTrain, s]) sms) @
        [LogEarlyStop e, TorchSave ?p, CloseAllWriters]"
    using t' h3 by simp
  have c3: "list_all2 (\<lambda>s k. \<exists>a b tm' vm'. s = LogSummary k a b tm' vm') sms [0..<Suc e]"
    using h4 pre by simp
  have c4: "\<exists>a b. last sms = LogSummary e a b tm vm" using h5 by blast
  have c5: "checkpoints w' ?p = Some (ext w')" using w' by simp
  have c6: "int e < epochs" using lt by simp
  show ?thesis
    by (intro exI conjI) (rule c1, rule c2, rule c3, rule h5, rule c5, rule c6)
qed

subsection \<open>The instance, evaluated\<close>

lemmas ex_eval =
  fit_unfold fit_result_def unbound_def fit_epoch_def train_pass_def val_pass_def epoch_end_def
  ex_collab_simps ex_train_def ex_valid_def ex_config_def ex_world_def Let_def loss_batch_def
  emit_def on_ext_def get_current_lr_def padding_mask_def unzip_results_def
  size_weighted_loss_def np_multiply_def np_divide_def compute_metrics_def and_then_def
  metric_on_epoch_def metric_on_batch_def torch_cat_def torch_mean_dim0_def np_mean_def
  first_feature_def top_hit_def ranked_def metrics_names_def str_int_def str_nat.simps
  digit_char_def py_dict_def dict_update_def step_scheduler_def compute_test_def open_w_def
  append_lines_def predictions_file_def metric_file_def path_join_def nan_to_zero_def
  numpy_T_def np_mean_arrays_def setdefault_def step_early_stop_def es_step_def
  es_stop_training_def tensorboard_metrics_dict_def

lemma ex_fit_one:
  "fst (fit 1 ex_collab None ex_train ex_valid ex_config None None ''out'' ex_world) =
     Inr [(''epochs'', VInt 0),
          (''train_metrics'',
           VDict [(''ndcg_1'', Fin (3 / 4)), (''ndcg_2'', Fin (3 / 4)), (''mrr_1'', Fin (3 / 4))]),
          (''val_metrics'', VDict [(''ndcg_1'', Fin 0), (''ndcg_2'', Fin 1), (''mrr_1'', Fin 0)]),
          (''num_params'', VInt 1)]"
  by (simp add: ex_eval)



text \<open>C9 at the instance: a call with one epoch returns, a call with none fails.\<close>

theorem fit_zero_epochs_witness:
  "(\<exists>r. fst (fit 1 ex_collab None ex_train ex_valid ex_config None None ''out'' ex_world) = Inr r)
   \<and> (1::int) \<le> 1
   \<and> fst (fit 0 ex_collab None ex_train ex_valid ex_config None None ''out'' ex_world) =
       Inl UnboundLocalError"
  using fit_zero_epochs [of ex_collab None ex_train ex_valid ex_config None None "''out''" ex_world 1]
    ex_fit_one
  by simp

lemma upt_3: "[0..<3] = [0, 1, 2]"
  by (simp add: numeral_3_eq_3 upt_rec)

lemma ex_fit_stop:
  "LogEarlyStop 1 \<in> set (trace (snd (fit 3 ex_collab None ex_valid ex_valid
     \<lparr>metrics = [(''ndcg'', [1])], val_metric = ''ndcg_1''\<rparr> None (Some 1) ''out'' ex_world)))"
  by (simp add: ex_eval upt_3)

text \<open>
  C8 at the instance: with patience 1 and a validation metric that never improves after
  epoch 0, a call for three epochs stops at epoch 1 and returns the dict of epoch 1.
\<close>

theorem fit_early_stop_witness:
  "LogEarlyStop 1 \<in> set (trace (snd (fit 3 ex_collab None ex_valid ex_valid
     \<lparr>metrics = [(''ndcg'', [1])], val_metric = ''ndcg_1''\<rparr> None (Some 1) ''out'' ex_world)))
   \<and> (\<exists>tm vm. fst (fit 3 ex_collab None ex_valid ex_valid
         \<lparr>metrics = [(''ndcg'', [1])], val_metric = ''ndcg_1''\<rparr> None (Some 1) ''out'' ex_world) =
       Inr [(''epochs'', VInt 1), (''train_metrics'', VDict tm), (''val_metrics'', VDict vm),
            (''num_params'', VInt 1)])"
proof -
  let ?run = "fit 3 ex_collab None ex_valid ex_valid
     \<lparr>metrics = [(''ndcg'', [1])], val_metric = ''ndcg_1''\<rparr> None (Some 1) ''out'' ex_world"
  have h: "LogEarlyStop 1 \<in> set (drop (length (trace ex_world)) (trace (snd ?run)))"
    using ex_fit_stop by (simp add: ex_world_def)
  have "?run = (fst ?run, snd ?run)" by simp
  from fit_early_stop [OF this h] ex_fit_stop show ?thesis
    by (auto simp: ex_collab_simps)
qed

subsection \<open>The epoch losses and the empty split\<close>
















text \<open>
  C2 at a failing input: the configured validation metric \<^verbatim>\<open>mrr_1\<close> is not among the
  computed metrics. With a plateau scheduler the subscript \<^verbatim>\<open>val_metrics[config.val_metric]\<close>
  of line 185 raises KeyError and the call fails; with another scheduler the same call
  returns.
\<close>

theorem fit_plateau_missing_metric_raises:
  "fst (fit 1 ex_collab (Some ReduceLROnPlateau) ex_valid ex_valid
          \<lparr>metrics = [(''ndcg'', [1])], val_metric = ''mrr_1''\<rparr> None None ''out'' ex_world) =
     Inl KeyError
   \<and> fst (fit 1 ex_collab (Some OtherScheduler) ex_valid ex_valid
          \<lparr>metrics = [(''ndcg'', [1])], val_metric = ''mrr_1''\<rparr> None None ''out'' ex_world) =
     Inr [(''epochs'', VInt 0), (''train_metrics'', VDict [(''ndcg_1'', Fin 0)]),
          (''val_metrics'', VDict [(''ndcg_1'', Fin 0)]), (''num_params'', VInt 1)]"
  by (simp add: ex_eval)

subsection \<open>The per-query pass: what the model is asked to score\<close>









end
